theory Spec2Isabelle
  imports Main "HOL-Library.Multiset"
begin

section \<open>Data model of the Simako Node.js backend (nodejs/server.js)\<close>

text \<open>
  The request bodies are the objects that the JSON body parser hands to the route
  handlers. An object is the list of its properties in property order; a property is
  read with \<open>map_of\<close>. JSON numbers are only inspected by the date coercion and by the
  truthiness test, so they are kept as integers.
\<close>

datatype json =
    JNull
  | JBool bool
  | JNum int
  | JStr string
  | JArr "json list"
  | JObj "(string \<times> json) list"

type_synonym obj = "(string \<times> json) list"

text \<open>An ObjectId is kept as the number it denotes, a Date as milliseconds since the epoch.\<close>

type_synonym oid = nat
type_synonym date = int

text \<open>
  \<open>messageSchema\<close> and \<open>simCardSchema\<close>. The selectors carry a prefix because both
  schemas have the paths \<open>sim_id\<close> and \<open>created_at\<close>; \<open>m_id\<close> and \<open>sc_id\<close> are \<open>_id\<close>.
\<close>

record message =
  m_id :: oid
  m_sim_id :: string
  m_type :: string
  m_from :: string
  m_to :: "string option"
  m_message :: string
  m_timestamp :: date
  m_processed :: bool
  m_processed_at :: "date option"
  m_metadata :: json
  m_created_at :: date

record sim_card =
  sc_id :: oid
  sc_sim_id :: string
  sc_phone_number :: string
  sc_carrier :: "string option"
  sc_is_active :: bool
  sc_created_at :: date
  sc_last_seen :: date

text \<open>
  The database: the two collections in insertion order, and the source of fresh
  ObjectIds (the next identifier that a saved document receives). The operations of
  the store are modelled where the store answers; a round-trip that fails because the
  store is away ends in the handlers' catch blocks and is not part of the model.
\<close>

record db =
  messages :: "message list"
  sim_cards :: "sim_card list"
  next_oid :: oid

definition empty_db :: db where
  "empty_db = \<lparr>messages = [], sim_cards = [], next_oid = 0\<rparr>"

text \<open>
  What a request reads from its surroundings: the clock (\<open>new Date()\<close>, \<open>Date.now\<close>; the
  reads of one request are one instant) and \<open>mongoose.connection.readyState\<close>.
\<close>

record env =
  now :: date
  readyState :: nat

subsection \<open>Validation errors and responses\<close>

text \<open>The error of a failed Joi validation: its code and the key it is reported for.\<close>

datatype joi_error =
    AnyRequired string
  | StringBase string
  | StringEmpty string
  | AnyOnly string
  | DateBase string
  | ObjectBase string
  | BooleanBase string
  | ObjectUnknown string

datatype store_error = ValidationError | DuplicateKey | CastError | BadValue

text \<open>
  The values that the handlers put into the objects they pass to \<open>res.json\<close>.
  \<open>RJoi\<close> is \<open>error.details[0].message\<close>, \<open>RIsoString\<close> the result of \<open>toISOString()\<close>.
\<close>

datatype resval =
    RStr string
  | RNum nat
  | ROid oid
  | RDate date
  | RIsoString date
  | RJson json
  | RJoi joi_error
  | RMessage message
  | RMessages "message list"
  | RSimCard sim_card
  | RSimCards "sim_card list"
  | RObj "(string \<times> resval) list"

record response =
  status :: nat
  body :: "(string \<times> resval) list"

definition internal_error :: response where
  "internal_error = \<lparr>status = 500, body = [(''error'', RStr ''Internal server error'')]\<rparr>"

section \<open>The validation schemas\<close>

text \<open>
  Validation stops at the first error. The keys of the schema are validated in the
  order of their declaration, then the keys that the schema does not declare are
  rejected.
\<close>

definition joi_then :: "joi_error + 'a \<Rightarrow> ('a \<Rightarrow> joi_error + 'b) \<Rightarrow> joi_error + 'b" where
  "joi_then r f = (case r of Inl e \<Rightarrow> Inl e | Inr a \<Rightarrow> f a)"

text \<open>\<open>Joi.string().required()\<close>: present, a string, not the empty string.\<close>

definition joi_string_required :: "string \<Rightarrow> obj \<Rightarrow> joi_error + string" where
  "joi_string_required k b =
     (case map_of b k of
        None \<Rightarrow> Inl (AnyRequired k)
      | Some (JStr s) \<Rightarrow> if s = [] then Inl (StringEmpty k) else Inr s
      | Some _ \<Rightarrow> Inl (StringBase k))"

text \<open>\<open>Joi.string()\<close>: absent, or a string that is not empty.\<close>

definition joi_string :: "string \<Rightarrow> obj \<Rightarrow> joi_error + string option" where
  "joi_string k b =
     (case map_of b k of
        None \<Rightarrow> Inr None
      | Some (JStr s) \<Rightarrow> if s = [] then Inl (StringEmpty k) else Inr (Some s)
      | Some _ \<Rightarrow> Inl (StringBase k))"

text \<open>\<open>Joi.string().valid(...).required()\<close>: present and one of the listed strings.\<close>

definition joi_valid_required :: "string list \<Rightarrow> string \<Rightarrow> obj \<Rightarrow> joi_error + string" where
  "joi_valid_required allowed k b =
     (case map_of b k of
        None \<Rightarrow> Inl (AnyRequired k)
      | Some (JStr s) \<Rightarrow> if s \<in> set allowed then Inr s else Inl (AnyOnly k)
      | Some _ \<Rightarrow> Inl (AnyOnly k))"

text \<open>
  \<open>Joi.date()\<close>: absent, or a value that the library turns into a Date. The coercion
  (a number of milliseconds, a date string) is the library's; it is the parameter
  \<open>toDate\<close>.
\<close>

definition joi_date :: "(json \<Rightarrow> date option) \<Rightarrow> string \<Rightarrow> obj \<Rightarrow> joi_error + date option" where
  "joi_date toDate k b =
     (case map_of b k of
        None \<Rightarrow> Inr None
      | Some v \<Rightarrow> (case toDate v of None \<Rightarrow> Inl (DateBase k) | Some d \<Rightarrow> Inr (Some d)))"

text \<open>\<open>Joi.object()\<close>: absent, or an object (not an array, not null).\<close>

definition joi_object :: "string \<Rightarrow> obj \<Rightarrow> joi_error + json option" where
  "joi_object k b =
     (case map_of b k of
        None \<Rightarrow> Inr None
      | Some (JObj ps) \<Rightarrow> Inr (Some (JObj ps))
      | Some _ \<Rightarrow> Inl (ObjectBase k))"

text \<open>
  \<open>Joi.boolean()\<close>: absent, a boolean, or one of the strings true and false in any
  letter case, which the library converts.
\<close>

definition toLowerCase :: "string \<Rightarrow> string" where
  "toLowerCase s =
     map (\<lambda>c. case map_of (zip ''ABCDEFGHIJKLMNOPQRSTUVWXYZ'' ''abcdefghijklmnopqrstuvwxyz'') c of
                 Some l \<Rightarrow> l
               | None \<Rightarrow> c) s"

definition joi_boolean :: "string \<Rightarrow> obj \<Rightarrow> joi_error + bool option" where
  "joi_boolean k b =
     (case map_of b k of
        None \<Rightarrow> Inr None
      | Some (JBool v) \<Rightarrow> Inr (Some v)
      | Some (JStr s) \<Rightarrow>
          if toLowerCase s = ''true'' then Inr (Some True)
          else if toLowerCase s = ''false'' then Inr (Some False)
          else Inl (BooleanBase k)
      | Some _ \<Rightarrow> Inl (BooleanBase k))"

text \<open>Keys that the schema does not declare are not allowed; the first one is reported.\<close>

definition joi_unknown :: "string list \<Rightarrow> obj \<Rightarrow> joi_error + unit" where
  "joi_unknown keys b =
     (case filter (\<lambda>k. k \<notin> set keys) (map fst b) of
        [] \<Rightarrow> Inr ()
      | k # _ \<Rightarrow> Inl (ObjectUnknown k))"

text \<open>The validated value of a message payload (\<open>value\<close> in the handler).\<close>

record message_value =
  v_sim_id :: string
  v_type :: string
  v_from :: string
  v_to :: "string option"
  v_message :: string
  v_timestamp :: "date option"
  v_metadata :: "json option"

definition message_keys :: "string list" where
  "message_keys =
     [''sim_id'', ''type'', ''from'', ''to'', ''message'', ''timestamp'', ''metadata'']"

definition messageValidation :: "(json \<Rightarrow> date option) \<Rightarrow> obj \<Rightarrow> joi_error + message_value" where
  "messageValidation toDate b =
     joi_then (joi_string_required ''sim_id'' b) (\<lambda>sim_id.
     joi_then (joi_valid_required [''sms'', ''call''] ''type'' b) (\<lambda>type.
     joi_then (joi_string_required ''from'' b) (\<lambda>from.
     joi_then (joi_string ''to'' b) (\<lambda>to.
     joi_then (joi_string_required ''message'' b) (\<lambda>message.
     joi_then (joi_date toDate ''timestamp'' b) (\<lambda>timestamp.
     joi_then (joi_object ''metadata'' b) (\<lambda>metadata.
     joi_then (joi_unknown message_keys b) (\<lambda>_.
       Inr \<lparr>v_sim_id = sim_id, v_type = type, v_from = from, v_to = to,
            v_message = message, v_timestamp = timestamp, v_metadata = metadata\<rparr>))))))))"

record sim_card_value =
  w_sim_id :: string
  w_phone_number :: string
  w_carrier :: "string option"
  w_is_active :: "bool option"

definition sim_card_keys :: "string list" where
  "sim_card_keys = [''sim_id'', ''phone_number'', ''carrier'', ''is_active'']"

definition simCardValidation :: "obj \<Rightarrow> joi_error + sim_card_value" where
  "simCardValidation b =
     joi_then (joi_string_required ''sim_id'' b) (\<lambda>sim_id.
     joi_then (joi_string_required ''phone_number'' b) (\<lambda>phone_number.
     joi_then (joi_string ''carrier'' b) (\<lambda>carrier.
     joi_then (joi_boolean ''is_active'' b) (\<lambda>is_active.
     joi_then (joi_unknown sim_card_keys b) (\<lambda>_.
       Inr \<lparr>w_sim_id = sim_id, w_phone_number = phone_number, w_carrier = carrier,
            w_is_active = is_active\<rparr>)))))"

section \<open>The models and their store operations\<close>

text \<open>
  \<open>new Message({...value, timestamp: value.timestamp || new Date()})\<close>: a Date is
  always truthy, so the payload's timestamp is kept whenever it is there. The schema
  defaults fill \<open>processed\<close>, \<open>metadata\<close> and \<open>created_at\<close>; \<open>processed_at\<close> has no default.
\<close>

definition new_Message :: "env \<Rightarrow> db \<Rightarrow> message_value \<Rightarrow> message" where
  "new_Message e s v =
     \<lparr>m_id = next_oid s,
      m_sim_id = v_sim_id v,
      m_type = v_type v,
      m_from = v_from v,
      m_to = v_to v,
      m_message = v_message v,
      m_timestamp = (case v_timestamp v of Some d \<Rightarrow> d | None \<Rightarrow> now e),
      m_processed = False,
      m_processed_at = None,
      m_metadata = (case v_metadata v of Some md \<Rightarrow> md | None \<Rightarrow> JObj []),
      m_created_at = now e\<rparr>"

text \<open>
  The validators that \<open>save\<close> runs for \<open>messageSchema\<close>: a required string is not
  empty, and \<open>type\<close> is in the enumeration.
\<close>

definition messageSchema_valid :: "message \<Rightarrow> bool" where
  "messageSchema_valid m \<longleftrightarrow>
     m_sim_id m \<noteq> [] \<and> m_type m \<noteq> [] \<and> m_type m \<in> set [''sms'', ''call''] \<and>
     m_from m \<noteq> [] \<and> m_message m \<noteq> []"

definition save_message :: "message \<Rightarrow> db \<Rightarrow> store_error + (message \<times> db)" where
  "save_message m s =
     (if \<not> messageSchema_valid m then Inl ValidationError
      else Inr (m, s\<lparr>messages := messages s @ [m], next_oid := Suc (next_oid s)\<rparr>))"

section \<open>POST /api/messages\<close>

definition post_messages :: "(json \<Rightarrow> date option) \<Rightarrow> env \<Rightarrow> obj \<Rightarrow> db \<Rightarrow> response \<times> db" where
  "post_messages toDate e b s =
     (case messageValidation toDate b of
        Inl err \<Rightarrow> (\<lparr>status = 400, body = [(''error'', RJoi err)]\<rparr>, s)
      | Inr v \<Rightarrow>
          (case save_message (new_Message e s v) s of
             Inl _ \<Rightarrow> (internal_error, s)
           | Inr (savedMessage, s') \<Rightarrow>
               (\<lparr>status = 201,
                 body = [(''status'', RStr ''ok''),
                         (''message_id'', ROid (m_id savedMessage)),
                         (''received'', RMessage savedMessage)]\<rparr>, s')))"

section \<open>GET /api/messages\<close>

text \<open>
  A value of \<open>req.query\<close> as the query parser gives it: a string, or an array or an
  object when the parameter is written with brackets (\<open>sim_id[$ne]=x\<close>). The handler
  uses the four parameters without checking them.
\<close>

datatype qvalue =
    QStr string
  | QArr "qvalue list"
  | QObj "(string \<times> qvalue) list"

record msg_query =
  q_sim_id :: "qvalue option"
  q_type :: "qvalue option"
  q_limit :: "qvalue option"
  q_skip :: "qvalue option"

text \<open>
  What the handler takes from JavaScript, the driver and the store as it comes.
  \<open>parseInt\<close> gives a number, \<open>None\<close> standing for NaN and the infinities.
  \<open>cast_condition\<close> is the condition that the store puts on a field for a filter value
  that is not a string (an array, an object of operators), and \<open>None\<close> when the cast of
  the value throws. \<open>other_skip\<close> and \<open>other_limit\<close> are the counts that the store takes
  for a number outside the range fixed in \<open>read_skip\<close> and \<open>read_limit\<close> below, and \<open>None\<close>
  when the number is refused.
\<close>

record query_lib =
  parseInt :: "qvalue \<Rightarrow> int option"
  cast_condition :: "qvalue \<Rightarrow> (string \<Rightarrow> bool) option"
  other_skip :: "int option \<Rightarrow> nat option"
  other_limit :: "int option \<Rightarrow> nat option"

text \<open>
  \<open>if (sim_id) query.sim_id = sim_id\<close>: a parameter that is absent or the empty string
  adds no condition; an array or an object is truthy and goes into the filter.
\<close>

fun q_truthy :: "qvalue \<Rightarrow> bool" where
  "q_truthy (QStr x) = (x \<noteq> [])"
| "q_truthy (QArr _) = True"
| "q_truthy (QObj _) = True"

record filter_query =
  f_sim_id :: "qvalue option"
  f_type :: "qvalue option"

definition build_query :: "msg_query \<Rightarrow> filter_query" where
  "build_query q =
     \<lparr>f_sim_id = (case q_sim_id q of Some x \<Rightarrow> if q_truthy x then Some x else None | None \<Rightarrow> None),
      f_type = (case q_type q of Some x \<Rightarrow> if q_truthy x then Some x else None | None \<Rightarrow> None)\<rparr>"

text \<open>
  The filter as the store applies it. Both paths are strings in the schema: a string
  in the filter is an equality, a path that the filter does not name is not
  constrained, and the conditions of the two paths are joined by conjunction.
\<close>

definition cast_field :: "query_lib \<Rightarrow> qvalue option \<Rightarrow> (string \<Rightarrow> bool) option" where
  "cast_field lib x =
     (case x of
        None \<Rightarrow> Some (\<lambda>_. True)
      | Some (QStr y) \<Rightarrow> Some (\<lambda>z. z = y)
      | Some v \<Rightarrow> cast_condition lib v)"

definition cast_query :: "query_lib \<Rightarrow> filter_query \<Rightarrow> (message \<Rightarrow> bool) option" where
  "cast_query lib fq =
     (case cast_field lib (f_sim_id fq) of
        None \<Rightarrow> None
      | Some p \<Rightarrow>
          (case cast_field lib (f_type fq) of
             None \<Rightarrow> None
           | Some r \<Rightarrow> Some (\<lambda>m. p (m_sim_id m) \<and> r (m_type m))))"

text \<open>
  \<open>.skip(parseInt(skip))\<close> and \<open>.limit(parseInt(limit))\<close>. A number from 0 to
  2147483647 is the count itself, and the store refuses a negative skip; what happens
  to any other number is left to \<open>other_skip\<close> and \<open>other_limit\<close>.
\<close>

definition read_skip :: "query_lib \<Rightarrow> int option \<Rightarrow> nat option" where
  "read_skip lib x =
     (case x of
        Some n \<Rightarrow>
          if n < 0 then None
          else if n < 2147483648 then Some (nat n)
          else other_skip lib x
      | None \<Rightarrow> other_skip lib x)"

definition read_limit :: "query_lib \<Rightarrow> int option \<Rightarrow> nat option" where
  "read_limit lib x =
     (case x of
        Some n \<Rightarrow> if 0 \<le> n \<and> n < 2147483648 then Some (nat n) else other_limit lib x
      | None \<Rightarrow> other_limit lib x)"

text \<open>
  \<open>.sort({ timestamp: -1 })\<close>, \<open>.skip(n)\<close>, and \<open>.limit(n)\<close>, where 0 sets no limit. The
  store does not say in which order it returns records of equal timestamp; the model
  keeps them in insertion order, and no property below depends on that.
\<close>

definition sort_timestamp_desc :: "message list \<Rightarrow> message list" where
  "sort_timestamp_desc ms = sort_key (\<lambda>m. - m_timestamp m) ms"

definition limit_docs :: "nat \<Rightarrow> 'a list \<Rightarrow> 'a list" where
  "limit_docs n xs = (if n = 0 then xs else take n xs)"

definition Message_find ::
  "query_lib \<Rightarrow> filter_query \<Rightarrow> int option \<Rightarrow> int option \<Rightarrow> db \<Rightarrow> store_error + message list" where
  "Message_find lib fq skip limit s =
     (case cast_query lib fq of
        None \<Rightarrow> Inl CastError
      | Some P \<Rightarrow>
          (case read_skip lib skip of
             None \<Rightarrow> Inl BadValue
           | Some k \<Rightarrow>
               (case read_limit lib limit of
                  None \<Rightarrow> Inl BadValue
                | Some l \<Rightarrow>
                    Inr (limit_docs l (drop k (sort_timestamp_desc (filter P (messages s))))))))"

definition Message_countDocuments :: "query_lib \<Rightarrow> filter_query \<Rightarrow> db \<Rightarrow> store_error + nat" where
  "Message_countDocuments lib fq s =
     (case cast_query lib fq of
        None \<Rightarrow> Inl CastError
      | Some P \<Rightarrow> Inr (length (filter P (messages s))))"

text \<open>
  The handler. The defaults \<open>limit = 100\<close> and \<open>skip = 0\<close> are numbers, which \<open>parseInt\<close>
  gives back. A rejection of either store call ends in the catch block.
\<close>

definition get_messages :: "query_lib \<Rightarrow> msg_query \<Rightarrow> db \<Rightarrow> response \<times> db" where
  "get_messages lib q s =
     (let limit = (case q_limit q of None \<Rightarrow> Some 100 | Some v \<Rightarrow> parseInt lib v);
          skip = (case q_skip q of None \<Rightarrow> Some 0 | Some v \<Rightarrow> parseInt lib v);
          query = build_query q
      in case Message_find lib query skip limit s of
           Inl _ \<Rightarrow> (internal_error, s)
         | Inr msgs \<Rightarrow>
             (case Message_countDocuments lib query s of
                Inl _ \<Rightarrow> (internal_error, s)
              | Inr total' \<Rightarrow>
                  (\<lparr>status = 200,
                    body = [(''messages'', RMessages msgs),
                            (''count'', RNum (length msgs)),
                            (''total'', RNum total')]\<rparr>, s)))"

section \<open>PUT /api/messages/:messageId/processed\<close>

text \<open>
  \<open>Message.findByIdAndUpdate(messageId, update, { new: true })\<close>. The identifier of the
  path is cast to an ObjectId first; which strings the driver accepts is its own
  matter, so the cast is the parameter \<open>castObjectId\<close>, and a string that it refuses
  makes the call throw. The first document with the identifier is updated and the
  updated document is returned, or null when there is none.
\<close>

fun update_first :: "('a \<Rightarrow> bool) \<Rightarrow> ('a \<Rightarrow> 'a) \<Rightarrow> 'a list \<Rightarrow> 'a list" where
  "update_first P f [] = []"
| "update_first P f (x # xs) = (if P x then f x # xs else x # update_first P f xs)"

definition findByIdAndUpdate ::
  "(string \<Rightarrow> oid option) \<Rightarrow> string \<Rightarrow> (message \<Rightarrow> message) \<Rightarrow> db \<Rightarrow>
     store_error + (message option \<times> db)" where
  "findByIdAndUpdate castObjectId messageId upd s =
     (case castObjectId messageId of
        None \<Rightarrow> Inl CastError
      | Some i \<Rightarrow>
          (case find (\<lambda>m. m_id m = i) (messages s) of
             None \<Rightarrow> Inr (None, s)
           | Some m \<Rightarrow>
               Inr (Some (upd m),
                    s\<lparr>messages := update_first (\<lambda>m. m_id m = i) upd (messages s)\<rparr>)))"

text \<open>The update \<open>{ processed: true, processed_at: new Date() }\<close>.\<close>

definition mark_processed :: "env \<Rightarrow> message \<Rightarrow> message" where
  "mark_processed e m = m\<lparr>m_processed := True, m_processed_at := Some (now e)\<rparr>"

definition put_processed :: "(string \<Rightarrow> oid option) \<Rightarrow> env \<Rightarrow> string \<Rightarrow> db \<Rightarrow> response \<times> db" where
  "put_processed castObjectId e messageId s =
     (case findByIdAndUpdate castObjectId messageId (mark_processed e) s of
        Inl _ \<Rightarrow> (internal_error, s)
      | Inr (None, s') \<Rightarrow> (\<lparr>status = 404, body = [(''error'', RStr ''Message not found'')]\<rparr>, s')
      | Inr (Some m, s') \<Rightarrow>
          (\<lparr>status = 200,
            body = [(''status'', RStr ''ok''),
                    (''message'', RStr ''Message marked as processed''),
                    (''data'', RMessage m)]\<rparr>, s'))"

section \<open>The SIM card endpoints\<close>

definition get_sim_cards :: "db \<Rightarrow> response \<times> db" where
  "get_sim_cards s = (\<lparr>status = 200, body = [(''sim_cards'', RSimCards (sim_cards s))]\<rparr>, s)"

definition SimCard_findOne :: "string \<Rightarrow> db \<Rightarrow> sim_card option" where
  "SimCard_findOne x s = find (\<lambda>c. sc_sim_id c = x) (sim_cards s)"

definition new_SimCard :: "env \<Rightarrow> db \<Rightarrow> sim_card_value \<Rightarrow> sim_card" where
  "new_SimCard e s v =
     \<lparr>sc_id = next_oid s,
      sc_sim_id = w_sim_id v,
      sc_phone_number = w_phone_number v,
      sc_carrier = w_carrier v,
      sc_is_active = (case w_is_active v of Some a \<Rightarrow> a | None \<Rightarrow> True),
      sc_created_at = now e,
      sc_last_seen = now e\<rparr>"

text \<open>
  \<open>save\<close> for \<open>simCardSchema\<close>: the required strings are not empty, and the unique index
  on \<open>sim_id\<close> refuses a second document with the same value.
\<close>

definition simCardSchema_valid :: "sim_card \<Rightarrow> bool" where
  "simCardSchema_valid c \<longleftrightarrow> sc_sim_id c \<noteq> [] \<and> sc_phone_number c \<noteq> []"

definition save_sim_card :: "sim_card \<Rightarrow> db \<Rightarrow> store_error + (sim_card \<times> db)" where
  "save_sim_card c s =
     (if \<not> simCardSchema_valid c then Inl ValidationError
      else if list_ex (\<lambda>c'. sc_sim_id c' = sc_sim_id c) (sim_cards s) then Inl DuplicateKey
      else Inr (c, s\<lparr>sim_cards := sim_cards s @ [c], next_oid := Suc (next_oid s)\<rparr>))"

definition post_sim_cards :: "env \<Rightarrow> obj \<Rightarrow> db \<Rightarrow> response \<times> db" where
  "post_sim_cards e b s =
     (case simCardValidation b of
        Inl err \<Rightarrow> (\<lparr>status = 400, body = [(''error'', RJoi err)]\<rparr>, s)
      | Inr v \<Rightarrow>
          (case SimCard_findOne (w_sim_id v) s of
             Some existingSim \<Rightarrow>
               (\<lparr>status = 409, body = [(''error'', RStr ''SIM card already registered'')]\<rparr>, s)
           | None \<Rightarrow>
               (case save_sim_card (new_SimCard e s v) s of
                  Inl _ \<Rightarrow> (internal_error, s)
                | Inr (savedSimCard, s') \<Rightarrow>
                    (\<lparr>status = 201,
                      body = [(''status'', RStr ''ok''),
                              (''sim_card'', RSimCard savedSimCard)]\<rparr>, s'))))"

section \<open>The SimakoHost endpoints and the health check\<close>

text \<open>
  JavaScript truthiness. A property that the body does not have is \<open>undefined\<close>, which
  is falsy as well, so \<open>!sim_id || !to || !message\<close> holds unless all three properties
  are there and truthy.
\<close>

fun truthy :: "json \<Rightarrow> bool" where
  "truthy JNull = False"
| "truthy (JBool v) = v"
| "truthy (JNum n) = (n \<noteq> 0)"
| "truthy (JStr s) = (s \<noteq> [])"
| "truthy (JArr _) = True"
| "truthy (JObj _) = True"

definition missing_fields :: response where
  "missing_fields =
     \<lparr>status = 400, body = [(''error'', RStr ''Missing required fields: sim_id, to, message'')]\<rparr>"

definition simakohost_status :: "env \<Rightarrow> db \<Rightarrow> response \<times> db" where
  "simakohost_status e s =
     (\<lparr>status = 200,
       body = [(''status'', RStr ''ok''),
               (''message'', RStr ''SimakoHost integration endpoint''),
               (''timestamp'', RIsoString (now e))]\<rparr>, s)"

definition send_sms :: "env \<Rightarrow> obj \<Rightarrow> db \<Rightarrow> response \<times> db" where
  "send_sms e b s =
     (case (map_of b ''sim_id'', map_of b ''to'', map_of b ''message'') of
        (Some sim_id, Some to, Some message) \<Rightarrow>
          if \<not> truthy sim_id \<or> \<not> truthy to \<or> \<not> truthy message then (missing_fields, s)
          else
            (\<lparr>status = 202,
              body = [(''status'', RStr ''ok''),
                      (''message'', RStr ''SMS queued for sending''),
                      (''request'',
                       RObj [(''sim_id'', RJson sim_id),
                             (''to'', RJson to),
                             (''message'', RJson message),
                             (''status'', RStr ''queued''),
                             (''created_at'', RDate (now e))])]\<rparr>, s)
      | _ \<Rightarrow> (missing_fields, s))"

definition health :: "env \<Rightarrow> db \<Rightarrow> response \<times> db" where
  "health e s =
     (\<lparr>status = 200,
       body = [(''status'', RStr ''ok''),
               (''service'', RStr ''Simako Node.js Backend''),
               (''mongodb'', RStr (if readyState e = 1 then ''connected'' else ''disconnected'')),
               (''timestamp'', RIsoString (now e))]\<rparr>, s)"

section \<open>The router\<close>

text \<open>
  The routes of the application, and the handler for a path that matches none. The
  middleware in front of the routes (rate limiting, security headers, logging, body
  parsing) is not modelled: a request here is one that reaches its handler.
\<close>

datatype request =
    GetHealth
  | PostMessages obj
  | GetMessages msg_query
  | PutProcessed string
  | GetSimCards
  | PostSimCards obj
  | GetSimakohostStatus
  | PostSendSms obj
  | Unmatched

fun handle ::
  "(json \<Rightarrow> date option) \<Rightarrow> (string \<Rightarrow> oid option) \<Rightarrow> query_lib \<Rightarrow> env \<Rightarrow> request \<Rightarrow> db \<Rightarrow>
     response \<times> db" where
  "handle toDate castObjectId lib e GetHealth s = health e s"
| "handle toDate castObjectId lib e (PostMessages b) s = post_messages toDate e b s"
| "handle toDate castObjectId lib e (GetMessages q) s = get_messages lib q s"
| "handle toDate castObjectId lib e (PutProcessed i) s = put_processed castObjectId e i s"
| "handle toDate castObjectId lib e GetSimCards s = get_sim_cards s"
| "handle toDate castObjectId lib e (PostSimCards b) s = post_sim_cards e b s"
| "handle toDate castObjectId lib e GetSimakohostStatus s = simakohost_status e s"
| "handle toDate castObjectId lib e (PostSendSms b) s = send_sms e b s"
| "handle toDate castObjectId lib e Unmatched s =
     (\<lparr>status = 404, body = [(''error'', RStr ''Endpoint not found'')]\<rparr>, s)"

text \<open>The service handles the requests one after the other, each with its own surroundings.\<close>

fun run ::
  "(json \<Rightarrow> date option) \<Rightarrow> (string \<Rightarrow> oid option) \<Rightarrow> query_lib \<Rightarrow> (env \<times> request) list \<Rightarrow> db \<Rightarrow>
     db" where
  "run toDate castObjectId lib [] s = s"
| "run toDate castObjectId lib ((e, r) # rs) s =
     run toDate castObjectId lib rs (snd (handle toDate castObjectId lib e r s))"

text \<open>
  Instances of the library parameters for concrete evaluations: a date coercion that
  reads a number of milliseconds, the cast of the ObjectId strings of 24 hexadecimal
  digits, and for the query string a \<open>parseInt\<close> that reads the decimal digits at the
  start of a string, after an optional sign, together with a store that refuses
  every filter value and number that the model leaves open.
\<close>

fun millis_toDate :: "json \<Rightarrow> date option" where
  "millis_toDate (JNum n) = Some n"
| "millis_toDate _ = None"

definition hex_digit :: "char \<Rightarrow> nat option" where
  "hex_digit c =
     (let n = (of_char c :: nat) in
      if 48 \<le> n \<and> n \<le> 57 then Some (n - 48)
      else if 97 \<le> n \<and> n \<le> 102 then Some (n - 87)
      else if 65 \<le> n \<and> n \<le> 70 then Some (n - 55)
      else None)"

fun hex_value :: "nat \<Rightarrow> string \<Rightarrow> nat option" where
  "hex_value acc [] = Some acc"
| "hex_value acc (c # cs) =
     (case hex_digit c of None \<Rightarrow> None | Some d \<Rightarrow> hex_value (16 * acc + d) cs)"

definition hex_castObjectId :: "string \<Rightarrow> oid option" where
  "hex_castObjectId x = (if length x = 24 then hex_value 0 x else None)"

definition decimal_digit :: "char \<Rightarrow> nat option" where
  "decimal_digit c =
     (let n = (of_char c :: nat) in if 48 \<le> n \<and> n \<le> 57 then Some (n - 48) else None)"

fun leading_digits :: "nat option \<Rightarrow> string \<Rightarrow> nat option" where
  "leading_digits acc [] = acc"
| "leading_digits acc (c # cs) =
     (case decimal_digit c of
        None \<Rightarrow> acc
      | Some d \<Rightarrow> leading_digits (Some (10 * (case acc of None \<Rightarrow> 0 | Some a \<Rightarrow> a) + d)) cs)"

fun decimal_parseInt :: "qvalue \<Rightarrow> int option" where
  "decimal_parseInt (QStr (c # cs)) =
     (if c = CHR ''-'' then map_option (\<lambda>n. - int n) (leading_digits None cs)
      else if c = CHR ''+'' then map_option int (leading_digits None cs)
      else map_option int (leading_digits None (c # cs)))"
| "decimal_parseInt _ = None"

definition plain_lib :: query_lib where
  "plain_lib =
     \<lparr>parseInt = decimal_parseInt, cast_condition = (\<lambda>_. None),
      other_skip = (\<lambda>_. None), other_limit = (\<lambda>_. None)\<rparr>"

section \<open>Payloads that pass validation, and example data\<close>

text \<open>
  The payloads of POST /api/messages that the schema accepts, written out property by
  property.
\<close>

definition nonempty_string :: "json option \<Rightarrow> bool" where
  "nonempty_string x = (case x of Some (JStr s) \<Rightarrow> s \<noteq> [] | _ \<Rightarrow> False)"

definition well_formed_message :: "(json \<Rightarrow> date option) \<Rightarrow> obj \<Rightarrow> bool" where
  "well_formed_message toDate b \<longleftrightarrow>
     list_all (\<lambda>k. k \<in> set message_keys) (map fst b) \<and>
     nonempty_string (map_of b ''sim_id'') \<and>
     (map_of b ''type'' = Some (JStr ''sms'') \<or> map_of b ''type'' = Some (JStr ''call'')) \<and>
     nonempty_string (map_of b ''from'') \<and>
     (map_of b ''to'' = None \<or> nonempty_string (map_of b ''to'')) \<and>
     nonempty_string (map_of b ''message'') \<and>
     (case map_of b ''timestamp'' of None \<Rightarrow> True | Some t \<Rightarrow> toDate t \<noteq> None) \<and>
     (case map_of b ''metadata'' of None \<Rightarrow> True | Some (JObj _) \<Rightarrow> True | Some _ \<Rightarrow> False)"

text \<open>The payload of the specification's first scenario, and a clock reading.\<close>

definition payload_hello :: obj where
  "payload_hello =
     [(''sim_id'', JStr ''SIM001''), (''type'', JStr ''sms''),
      (''from'', JStr ''+1234567890''), (''message'', JStr ''hello'')]"

definition env_at :: "date \<Rightarrow> env" where
  "env_at t = \<lparr>now = t, readyState = 1\<rparr>"

text \<open>Payloads with all four required properties that the schema refuses.\<close>

definition payload_empty_sim_id :: obj where
  "payload_empty_sim_id =
     [(''sim_id'', JStr []), (''type'', JStr ''sms''),
      (''from'', JStr ''+1234567890''), (''message'', JStr ''hello'')]"

definition payload_with_processed :: obj where
  "payload_with_processed =
     [(''sim_id'', JStr ''SIM001''), (''type'', JStr ''sms''),
      (''from'', JStr ''+1234567890''), (''message'', JStr ''hello''),
      (''processed'', JBool True)]"

text \<open>The database after the scenario's message has been ingested at time 1000.\<close>

definition db_hello :: db where
  "db_hello = snd (post_messages millis_toDate (env_at 1000) payload_hello empty_db)"

definition message_hello :: message where
  "message_hello =
     \<lparr>m_id = 0, m_sim_id = ''SIM001'', m_type = ''sms'',
      m_from = ''+1234567890'', m_to = None, m_message = ''hello'',
      m_timestamp = 1000, m_processed = False, m_processed_at = None,
      m_metadata = JObj [], m_created_at = 1000\<rparr>"

text \<open>The same database after the message has been marked at time 2000.\<close>

definition db_hello_processed :: db where
  "db_hello_processed =
     snd (put_processed hex_castObjectId (env_at 2000) ''000000000000000000000000'' db_hello)"

text \<open>
  The queries of GET /api/messages whose filters are strings and whose \<open>limit\<close> and
  \<open>skip\<close> are numbers from 0 to 2147483647, the counts that such a query asks for, the
  records that it asks for, and lists that have the most recent timestamp first.
\<close>

definition plain_filter :: "qvalue option \<Rightarrow> bool" where
  "plain_filter x = (case x of None \<Rightarrow> True | Some (QStr _) \<Rightarrow> True | Some _ \<Rightarrow> False)"

definition plain_number :: "query_lib \<Rightarrow> qvalue option \<Rightarrow> bool" where
  "plain_number lib x =
     (case x of
        None \<Rightarrow> True
      | Some v \<Rightarrow> (case parseInt lib v of None \<Rightarrow> False | Some n \<Rightarrow> 0 \<le> n \<and> n < 2147483648))"

definition plain_query :: "query_lib \<Rightarrow> msg_query \<Rightarrow> bool" where
  "plain_query lib q \<longleftrightarrow>
     plain_filter (q_sim_id q) \<and> plain_filter (q_type q) \<and>
     plain_number lib (q_limit q) \<and> plain_number lib (q_skip q)"

definition count_or :: "query_lib \<Rightarrow> nat \<Rightarrow> qvalue option \<Rightarrow> nat" where
  "count_or lib d x =
     (case x of
        None \<Rightarrow> d
      | Some v \<Rightarrow> (case parseInt lib v of None \<Rightarrow> 0 | Some n \<Rightarrow> nat n))"

definition selected :: "msg_query \<Rightarrow> message \<Rightarrow> bool" where
  "selected q m \<longleftrightarrow>
     (q_sim_id q = None \<or> q_sim_id q = Some (QStr []) \<or> q_sim_id q = Some (QStr (m_sim_id m))) \<and>
     (q_type q = None \<or> q_type q = Some (QStr []) \<or> q_type q = Some (QStr (m_type m)))"

definition latest_first :: "message list \<Rightarrow> bool" where
  "latest_first ms = sorted_wrt (\<lambda>a b. m_timestamp b \<le> m_timestamp a) ms"

text \<open>Three messages of SIM001 and one of SIM002, inserted out of timestamp order.\<close>

definition message_at :: "oid \<Rightarrow> string \<Rightarrow> date \<Rightarrow> message" where
  "message_at i sim t =
     \<lparr>m_id = i, m_sim_id = sim, m_type = ''sms'', m_from = ''+1234567890'', m_to = None,
      m_message = ''hello'', m_timestamp = t, m_processed = False, m_processed_at = None,
      m_metadata = JObj [], m_created_at = 5000\<rparr>"

definition db_three :: db where
  "db_three =
     \<lparr>messages = [message_at 0 ''SIM001'' 2000, message_at 1 ''SIM002'' 2500,
                  message_at 2 ''SIM001'' 1000, message_at 3 ''SIM001'' 3000],
      sim_cards = [], next_oid = 4\<rparr>"

definition query_sim001 :: msg_query where
  "query_sim001 =
     \<lparr>q_sim_id = Some (QStr ''SIM001''), q_type = None, q_limit = Some (QStr ''1''),
      q_skip = Some (QStr ''1'')\<rparr>"

definition query_skip_minus_one :: msg_query where
  "query_skip_minus_one =
     \<lparr>q_sim_id = None, q_type = None, q_limit = None, q_skip = Some (QStr ''-1'')\<rparr>"

text \<open>The two invariants of the data model.\<close>

definition processed_at_iff_processed :: "db \<Rightarrow> bool" where
  "processed_at_iff_processed s =
     list_all (\<lambda>m. (m_processed_at m \<noteq> None) = m_processed m) (messages s)"

definition unique_sim_ids :: "db \<Rightarrow> bool" where
  "unique_sim_ids s = distinct (map sc_sim_id (sim_cards s))"

text \<open>The registration of the specification's second scenario, and send-sms requests.\<close>

definition payload_sim001 :: obj where
  "payload_sim001 = [(''sim_id'', JStr ''SIM001''), (''phone_number'', JStr ''+1234567890'')]"

definition sim_card_sim001 :: sim_card where
  "sim_card_sim001 =
     \<lparr>sc_id = 0, sc_sim_id = ''SIM001'', sc_phone_number = ''+1234567890'', sc_carrier = None,
      sc_is_active = True, sc_created_at = 1000, sc_last_seen = 1000\<rparr>"

definition payload_sms :: obj where
  "payload_sms = [(''sim_id'', JStr ''SIM001''), (''to'', JStr ''+1987''), (''message'', JStr ''hi'')]"

definition payload_sms_empty_sim_id :: obj where
  "payload_sms_empty_sim_id =
     [(''sim_id'', JStr []), (''to'', JStr ''+1987''), (''message'', JStr ''hi'')]"

section \<open>Properties\<close>

subsection \<open>What the schemas accept\<close>

lemma joi_then_Inr: "joi_then r f = Inr y \<longleftrightarrow> (\<exists>a. r = Inr a \<and> f a = Inr y)"
  by (cases r) (simp_all add: joi_then_def)

lemma joi_string_required_Inr:
  "joi_string_required k b = Inr x \<longleftrightarrow> map_of b k = Some (JStr x) \<and> x \<noteq> []"
  by (auto simp: joi_string_required_def split: option.splits json.splits)

lemma joi_string_Inr:
  "joi_string k b = Inr x \<longleftrightarrow>
     (map_of b k = None \<and> x = None) \<or> (\<exists>y. map_of b k = Some (JStr y) \<and> y \<noteq> [] \<and> x = Some y)"
  by (auto simp: joi_string_def split: option.splits json.splits)

lemma joi_valid_required_Inr:
  "joi_valid_required allowed k b = Inr x \<longleftrightarrow> map_of b k = Some (JStr x) \<and> x \<in> set allowed"
  by (auto simp: joi_valid_required_def split: option.splits json.splits)

lemma joi_date_Inr:
  "joi_date toDate k b = Inr x \<longleftrightarrow>
     (map_of b k = None \<and> x = None) \<or> (\<exists>v d. map_of b k = Some v \<and> toDate v = Some d \<and> x = Some d)"
  by (auto simp: joi_date_def split: option.splits)

lemma joi_object_Inr:
  "joi_object k b = Inr x \<longleftrightarrow>
     (map_of b k = None \<and> x = None) \<or> (\<exists>ps. map_of b k = Some (JObj ps) \<and> x = Some (JObj ps))"
  by (auto simp: joi_object_def split: option.splits json.splits)

lemma joi_unknown_Inr:
  "joi_unknown keys b = Inr x \<longleftrightarrow> (\<forall>k \<in> set (map fst b). k \<in> set keys)"
proof (cases "filter (\<lambda>k. k \<notin> set keys) (map fst b)")
  case Nil
  then show ?thesis
    by (simp add: joi_unknown_def filter_empty_conv)
next
  case (Cons k ks)
  then have "k \<in> set (filter (\<lambda>k. k \<notin> set keys) (map fst b))"
    by simp
  then have "k \<in> set (map fst b) \<and> k \<notin> set keys"
    by simp
  with Cons show ?thesis
    by (auto simp: joi_unknown_def)
qed

lemma nonempty_string_iff: "nonempty_string x \<longleftrightarrow> (\<exists>s. x = Some (JStr s) \<and> s \<noteq> [])"
  by (auto simp: nonempty_string_def split: option.splits json.splits)

lemma messageValidation_Inr:
  "messageValidation toDate b = Inr v \<longleftrightarrow>
     map_of b ''sim_id'' = Some (JStr (v_sim_id v)) \<and> v_sim_id v \<noteq> [] \<and>
     map_of b ''type'' = Some (JStr (v_type v)) \<and> v_type v \<in> set [''sms'', ''call''] \<and>
     map_of b ''from'' = Some (JStr (v_from v)) \<and> v_from v \<noteq> [] \<and>
     (case map_of b ''to'' of None \<Rightarrow> v_to v = None
      | Some x \<Rightarrow> (\<exists>y. x = JStr y \<and> y \<noteq> [] \<and> v_to v = Some y)) \<and>
     map_of b ''message'' = Some (JStr (v_message v)) \<and> v_message v \<noteq> [] \<and>
     (case map_of b ''timestamp'' of None \<Rightarrow> v_timestamp v = None
      | Some t \<Rightarrow> (\<exists>d. toDate t = Some d \<and> v_timestamp v = Some d)) \<and>
     (case map_of b ''metadata'' of None \<Rightarrow> v_metadata v = None
      | Some x \<Rightarrow> (\<exists>ps. x = JObj ps \<and> v_metadata v = Some x)) \<and>
     (\<forall>k \<in> set (map fst b). k \<in> set message_keys)"
  unfolding messageValidation_def joi_then_Inr joi_string_required_Inr joi_string_Inr
    joi_valid_required_Inr joi_date_Inr joi_object_Inr joi_unknown_Inr
  by (cases v) (auto split: option.splits)

lemma well_formed_message_iff:
  "well_formed_message toDate b \<longleftrightarrow> (\<exists>v. messageValidation toDate b = Inr v)"
proof
  assume wf: "well_formed_message toDate b"
  from wf obtain sid where sid: "map_of b ''sim_id'' = Some (JStr sid)" "sid \<noteq> []"
    by (auto simp: well_formed_message_def nonempty_string_iff)
  from wf obtain ty where ty: "map_of b ''type'' = Some (JStr ty)" "ty \<in> set [''sms'', ''call'']"
    by (auto simp: well_formed_message_def)
  from wf obtain fr where fr: "map_of b ''from'' = Some (JStr fr)" "fr \<noteq> []"
    by (auto simp: well_formed_message_def nonempty_string_iff)
  from wf obtain msg where msg: "map_of b ''message'' = Some (JStr msg)" "msg \<noteq> []"
    by (auto simp: well_formed_message_def nonempty_string_iff)
  from wf obtain to where to:
    "case map_of b ''to'' of None \<Rightarrow> to = None | Some x \<Rightarrow> (\<exists>y. x = JStr y \<and> y \<noteq> [] \<and> to = Some y)"
    by (cases "map_of b ''to''") (auto simp: well_formed_message_def nonempty_string_iff)
  from wf obtain ts where ts:
    "case map_of b ''timestamp'' of None \<Rightarrow> ts = None | Some t \<Rightarrow> (\<exists>d. toDate t = Some d \<and> ts = Some d)"
    by (cases "map_of b ''timestamp''") (auto simp: well_formed_message_def)
  from wf obtain md where md:
    "case map_of b ''metadata'' of None \<Rightarrow> md = None | Some x \<Rightarrow> (\<exists>ps. x = JObj ps \<and> md = Some x)"
    by (cases "map_of b ''metadata''") (auto simp: well_formed_message_def split: json.splits)
  from wf have keys: "\<forall>k \<in> set (map fst b). k \<in> set message_keys"
    by (simp add: well_formed_message_def list_all_iff)
  have "messageValidation toDate b =
          Inr \<lparr>v_sim_id = sid, v_type = ty, v_from = fr, v_to = to, v_message = msg,
               v_timestamp = ts, v_metadata = md\<rparr>"
    unfolding messageValidation_Inr using sid ty fr msg to ts md keys
    by (auto split: option.splits)
  then show "\<exists>v. messageValidation toDate b = Inr v" ..
next
  assume "\<exists>v. messageValidation toDate b = Inr v"
  then obtain v where "messageValidation toDate b = Inr v" ..
  then show "well_formed_message toDate b"
    unfolding messageValidation_Inr well_formed_message_def nonempty_string_iff list_all_iff
    by (auto split: option.splits)
qed

subsection \<open>POST /api/messages\<close>

lemma validated_message_passes_schema:
  assumes "messageValidation toDate b = Inr v"
  shows "messageSchema_valid (new_Message e s v)"
  using assms unfolding messageValidation_Inr
  by (auto simp: messageSchema_valid_def new_Message_def)

lemma post_messages_rejected:
  assumes "messageValidation toDate b = Inl err"
  shows "post_messages toDate e b s = (\<lparr>status = 400, body = [(''error'', RJoi err)]\<rparr>, s)"
  using assms by (simp add: post_messages_def)

lemma post_messages_saved:
  assumes "messageValidation toDate b = Inr v"
  shows "post_messages toDate e b s =
           (\<lparr>status = 201,
             body = [(''status'', RStr ''ok''),
                     (''message_id'', ROid (next_oid s)),
                     (''received'', RMessage (new_Message e s v))]\<rparr>,
            s\<lparr>messages := messages s @ [new_Message e s v], next_oid := Suc (next_oid s)\<rparr>)"
  using assms validated_message_passes_schema [OF assms, of e s]
  by (simp add: post_messages_def save_message_def new_Message_def)

lemmas joi_defs =
  joi_then_def joi_string_required_def joi_string_def joi_valid_required_def joi_date_def
  joi_object_def joi_boolean_def joi_unknown_def message_keys_def sim_card_keys_def
  messageValidation_def simCardValidation_def

text \<open>
  Claim C1, as the code has it. A POST /api/messages request is answered with 201
  exactly when its payload passes \<open>messageValidation\<close>, that is when it is
  \<open>well_formed_message\<close>: it has no property beyond the seven that the schema declares,
  \<open>sim_id\<close>, \<open>from\<close> and \<open>message\<close> are strings that are not empty, \<open>type\<close> is sms or
  call, \<open>to\<close> (when present) is a string that is not empty, \<open>timestamp\<close> (when present)
  is a date and \<open>metadata\<close> (when present) is an object. The body then carries
  \<open>message_id\<close> and the stored record, in which \<open>processed\<close> is false, \<open>processed_at\<close> is
  not set, \<open>created_at\<close> is the time of the request, \<open>timestamp\<close> is the payload's
  timestamp when supplied and the time of the request otherwise, and the other fields
  are the payload's; the record is appended to the collection. Any other payload is
  answered with 400 and a validation error and the database is left as it was; this
  is so in particular when a required field is missing or \<open>type\<close> is neither sms nor
  call.
\<close>
theorem post_messages_contract:
  "(well_formed_message toDate b \<longrightarrow>
      (\<exists>m. post_messages toDate e b s =
              (\<lparr>status = 201,
                body = [(''status'', RStr ''ok''), (''message_id'', ROid (m_id m)),
                        (''received'', RMessage m)]\<rparr>,
               s\<lparr>messages := messages s @ [m], next_oid := Suc (next_oid s)\<rparr>) \<and>
           m_id m = next_oid s \<and>
           m_processed m = False \<and> m_processed_at m = None \<and> m_created_at m = now e \<and>
           (case map_of b ''timestamp'' of
              None \<Rightarrow> m_timestamp m = now e
            | Some t \<Rightarrow> toDate t = Some (m_timestamp m)) \<and>
           map_of b ''sim_id'' = Some (JStr (m_sim_id m)) \<and>
           map_of b ''type'' = Some (JStr (m_type m)) \<and>
           map_of b ''from'' = Some (JStr (m_from m)) \<and>
           map_of b ''message'' = Some (JStr (m_message m)) \<and>
           map_of b ''to'' = map_option JStr (m_to m) \<and>
           (\<forall>x. map_of b ''metadata'' = Some x \<longrightarrow> m_metadata m = x))) \<and>
   (\<not> well_formed_message toDate b \<longrightarrow>
      (\<exists>err. post_messages toDate e b s =
                (\<lparr>status = 400, body = [(''error'', RJoi err)]\<rparr>, s))) \<and>
   (map_of b ''sim_id'' = None \<or> map_of b ''from'' = None \<or> map_of b ''message'' = None \<or>
    (map_of b ''type'' \<noteq> Some (JStr ''sms'') \<and> map_of b ''type'' \<noteq> Some (JStr ''call'')) \<longrightarrow>
      (\<exists>err. post_messages toDate e b s =
                (\<lparr>status = 400, body = [(''error'', RJoi err)]\<rparr>, s)))"
proof (intro conjI impI)
  assume "well_formed_message toDate b"
  then obtain v where v: "messageValidation toDate b = Inr v"
    by (auto simp: well_formed_message_iff)
  let ?m = "new_Message e s v"
  note fields = v [unfolded messageValidation_Inr]
  have "post_messages toDate e b s =
          (\<lparr>status = 201,
            body = [(''status'', RStr ''ok''), (''message_id'', ROid (m_id ?m)),
                    (''received'', RMessage ?m)]\<rparr>,
           s\<lparr>messages := messages s @ [?m], next_oid := Suc (next_oid s)\<rparr>)"
    using post_messages_saved [OF v, of e s] by (simp add: new_Message_def)
  moreover have "m_id ?m = next_oid s" "m_processed ?m = False" "m_processed_at ?m = None"
    "m_created_at ?m = now e"
    by (simp_all add: new_Message_def)
  moreover have "case map_of b ''timestamp'' of
                   None \<Rightarrow> m_timestamp ?m = now e
                 | Some t \<Rightarrow> toDate t = Some (m_timestamp ?m)"
    using fields by (auto simp: new_Message_def split: option.splits)
  moreover have "map_of b ''sim_id'' = Some (JStr (m_sim_id ?m))"
    "map_of b ''type'' = Some (JStr (m_type ?m))"
    "map_of b ''from'' = Some (JStr (m_from ?m))"
    "map_of b ''message'' = Some (JStr (m_message ?m))"
    using fields by (simp_all add: new_Message_def)
  moreover have "map_of b ''to'' = map_option JStr (m_to ?m)"
    using fields by (auto simp: new_Message_def split: option.splits)
  moreover have "\<forall>x. map_of b ''metadata'' = Some x \<longrightarrow> m_metadata ?m = x"
    using fields by (auto simp: new_Message_def split: option.splits)
  ultimately show "\<exists>m. post_messages toDate e b s =
              (\<lparr>status = 201,
                body = [(''status'', RStr ''ok''), (''message_id'', ROid (m_id m)),
                        (''received'', RMessage m)]\<rparr>,
               s\<lparr>messages := messages s @ [m], next_oid := Suc (next_oid s)\<rparr>) \<and>
           m_id m = next_oid s \<and>
           m_processed m = False \<and> m_processed_at m = None \<and> m_created_at m = now e \<and>
           (case map_of b ''timestamp'' of
              None \<Rightarrow> m_timestamp m = now e
            | Some t \<Rightarrow> toDate t = Some (m_timestamp m)) \<and>
           map_of b ''sim_id'' = Some (JStr (m_sim_id m)) \<and>
           map_of b ''type'' = Some (JStr (m_type m)) \<and>
           map_of b ''from'' = Some (JStr (m_from m)) \<and>
           map_of b ''message'' = Some (JStr (m_message m)) \<and>
           map_of b ''to'' = map_option JStr (m_to m) \<and>
           (\<forall>x. map_of b ''metadata'' = Some x \<longrightarrow> m_metadata m = x)"
    by blast
next
  assume "\<not> well_formed_message toDate b"
  then obtain err where "messageValidation toDate b = Inl err"
    by (cases "messageValidation toDate b") (auto simp: well_formed_message_iff)
  then show "\<exists>err. post_messages toDate e b s =
                (\<lparr>status = 400, body = [(''error'', RJoi err)]\<rparr>, s)"
    using post_messages_rejected by blast
next
  assume missing: "map_of b ''sim_id'' = None \<or> map_of b ''from'' = None \<or>
    map_of b ''message'' = None \<or>
    (map_of b ''type'' \<noteq> Some (JStr ''sms'') \<and> map_of b ''type'' \<noteq> Some (JStr ''call''))"
  then have "\<not> well_formed_message toDate b"
    by (auto simp: well_formed_message_def nonempty_string_iff)
  then obtain err where "messageValidation toDate b = Inl err"
    by (cases "messageValidation toDate b") (auto simp: well_formed_message_iff)
  then show "\<exists>err. post_messages toDate e b s =
                (\<lparr>status = 400, body = [(''error'', RJoi err)]\<rparr>, s)"
    using post_messages_rejected by blast
qed

text \<open>
  The theorem at the payload of the specification's scenario, and at a payload
  without \<open>type\<close>, \<open>from\<close> and \<open>message\<close>.
\<close>
theorem post_messages_contract_witness:
  "well_formed_message millis_toDate payload_hello \<and>
   post_messages millis_toDate (env_at 1000) payload_hello empty_db =
     (\<lparr>status = 201,
       body = [(''status'', RStr ''ok''), (''message_id'', ROid 0),
               (''received'',
                RMessage \<lparr>m_id = 0, m_sim_id = ''SIM001'', m_type = ''sms'',
                  m_from = ''+1234567890'', m_to = None, m_message = ''hello'',
                  m_timestamp = 1000, m_processed = False, m_processed_at = None,
                  m_metadata = JObj [], m_created_at = 1000\<rparr>)]\<rparr>,
      \<lparr>messages = [\<lparr>m_id = 0, m_sim_id = ''SIM001'', m_type = ''sms'',
                  m_from = ''+1234567890'', m_to = None, m_message = ''hello'',
                  m_timestamp = 1000, m_processed = False, m_processed_at = None,
                  m_metadata = JObj [], m_created_at = 1000\<rparr>],
        sim_cards = [], next_oid = 1\<rparr>) \<and>
   \<not> well_formed_message millis_toDate [(''sim_id'', JStr ''SIM001'')] \<and>
   map_of [(''sim_id'', JStr ''SIM001'')] ''from'' = None \<and>
   post_messages millis_toDate (env_at 1000) [(''sim_id'', JStr ''SIM001'')] empty_db =
     (\<lparr>status = 400, body = [(''error'', RJoi (AnyRequired ''type''))]\<rparr>, empty_db)"
  using post_messages_contract [of millis_toDate payload_hello "env_at 1000" empty_db]
    post_messages_contract [of millis_toDate "[(''sim_id'', JStr ''SIM001'')]" "env_at 1000" empty_db]
  by (simp add: well_formed_message_def nonempty_string_def payload_hello_def env_at_def
      empty_db_def post_messages_def joi_defs save_message_def new_Message_def
      messageSchema_valid_def)

text \<open>
  Claim C1 as it is stated fails: a payload that contains \<open>sim_id\<close>, \<open>type\<close>, \<open>from\<close>
  and \<open>message\<close> is answered with 400 when \<open>sim_id\<close> is the empty string, and also when
  it carries a further property such as \<open>processed\<close>.
\<close>
theorem post_messages_present_fields_counterexample:
  "map_of payload_empty_sim_id ''sim_id'' = Some (JStr []) \<and>
   map_of payload_empty_sim_id ''type'' = Some (JStr ''sms'') \<and>
   map_of payload_empty_sim_id ''from'' = Some (JStr ''+1234567890'') \<and>
   map_of payload_empty_sim_id ''message'' = Some (JStr ''hello'') \<and>
   post_messages millis_toDate (env_at 1000) payload_empty_sim_id empty_db =
     (\<lparr>status = 400, body = [(''error'', RJoi (StringEmpty ''sim_id''))]\<rparr>, empty_db) \<and>
   map_of payload_with_processed ''sim_id'' = Some (JStr ''SIM001'') \<and>
   map_of payload_with_processed ''type'' = Some (JStr ''sms'') \<and>
   map_of payload_with_processed ''from'' = Some (JStr ''+1234567890'') \<and>
   map_of payload_with_processed ''message'' = Some (JStr ''hello'') \<and>
   post_messages millis_toDate (env_at 1000) payload_with_processed empty_db =
     (\<lparr>status = 400, body = [(''error'', RJoi (ObjectUnknown ''processed''))]\<rparr>, empty_db)"
  by (simp add: payload_empty_sim_id_def payload_with_processed_def env_at_def
      empty_db_def post_messages_def joi_defs)

subsection \<open>PUT /api/messages/:messageId/processed\<close>

lemma db_hello_eq:
  "db_hello =
     \<lparr>messages = [\<lparr>m_id = 0, m_sim_id = ''SIM001'', m_type = ''sms'',
                  m_from = ''+1234567890'', m_to = None, m_message = ''hello'',
                  m_timestamp = 1000, m_processed = False, m_processed_at = None,
                  m_metadata = JObj [], m_created_at = 1000\<rparr>],
      sim_cards = [], next_oid = 1\<rparr>"
  by (simp add: db_hello_def payload_hello_def env_at_def empty_db_def post_messages_def
      joi_defs save_message_def new_Message_def messageSchema_valid_def)

lemma hex_cast_abc: "hex_castObjectId ''abc'' = None"
  by (simp add: hex_castObjectId_def)

lemma hex_cast_zero: "hex_castObjectId ''000000000000000000000000'' = Some 0"
  by (simp add: hex_castObjectId_def hex_digit_def)

lemma hex_cast_ten: "hex_castObjectId ''00000000000000000000000a'' = Some 10"
  by (simp add: hex_castObjectId_def hex_digit_def)

lemma find_update_first:
  assumes "\<And>x. P x \<Longrightarrow> P (f x)"
  shows "find P (update_first P f xs) = map_option f (find P xs)"
  using assms by (induction xs) auto

lemma update_first_twice:
  assumes "\<And>x. P x \<Longrightarrow> P (f x)" and "\<And>x. g (f x) = g x"
  shows "update_first P g (update_first P f xs) = update_first P g xs"
  using assms by (induction xs) auto

lemma update_first_list_all2:
  "list_all2 (\<lambda>x y. y = x \<or> (P x \<and> y = f x)) xs (update_first P f xs)"
  by (induction xs) (auto simp: list_all2_refl)

lemma put_processed_cast_error:
  assumes "castObjectId i = None"
  shows "put_processed castObjectId e i s = (internal_error, s)"
  using assms by (simp add: put_processed_def findByIdAndUpdate_def)

lemma put_processed_not_found:
  assumes "castObjectId i = Some k" and "find (\<lambda>m. m_id m = k) (messages s) = None"
  shows "put_processed castObjectId e i s =
           (\<lparr>status = 404, body = [(''error'', RStr ''Message not found'')]\<rparr>, s)"
  using assms by (simp add: put_processed_def findByIdAndUpdate_def)

lemma put_processed_found:
  assumes "castObjectId i = Some k" and "find (\<lambda>m. m_id m = k) (messages s) = Some m"
  shows "put_processed castObjectId e i s =
           (\<lparr>status = 200,
             body = [(''status'', RStr ''ok''),
                     (''message'', RStr ''Message marked as processed''),
                     (''data'', RMessage (mark_processed e m))]\<rparr>,
            s\<lparr>messages := update_first (\<lambda>m. m_id m = k) (mark_processed e) (messages s)\<rparr>)"
  using assms by (simp add: put_processed_def findByIdAndUpdate_def)

lemma put_processed_cases:
  obtains (cast_error) "castObjectId i = None"
  | (not_found) k where "castObjectId i = Some k" "find (\<lambda>m. m_id m = k) (messages s) = None"
  | (found) k m where "castObjectId i = Some k" "find (\<lambda>m. m_id m = k) (messages s) = Some m"
  by (cases "castObjectId i"; cases "find (\<lambda>m. m_id m = the (castObjectId i)) (messages s)") auto

lemma put_processed_twice:
  "put_processed castObjectId e2 i (snd (put_processed castObjectId e1 i s)) =
   put_processed castObjectId e2 i s"
proof (cases rule: put_processed_cases [where castObjectId = castObjectId and i = i and s = s])
  case cast_error
  then show ?thesis by (simp add: put_processed_cast_error)
next
  case (not_found k)
  then show ?thesis by (simp add: put_processed_not_found)
next
  case (found k m)
  let ?P = "\<lambda>m. m_id m = k"
  let ?s1 = "s\<lparr>messages := update_first ?P (mark_processed e1) (messages s)\<rparr>"
  have keep: "\<And>x. ?P x \<Longrightarrow> ?P (mark_processed e1 x)"
    by (simp add: mark_processed_def)
  have over: "\<And>x. mark_processed e2 (mark_processed e1 x) = mark_processed e2 x"
    by (simp add: mark_processed_def)
  have f1: "find ?P (messages ?s1) = Some (mark_processed e1 m)"
    using found(2) find_update_first [of ?P "mark_processed e1" "messages s"] keep by simp
  have "put_processed castObjectId e2 i ?s1 =
          (\<lparr>status = 200,
            body = [(''status'', RStr ''ok''),
                    (''message'', RStr ''Message marked as processed''),
                    (''data'', RMessage (mark_processed e2 (mark_processed e1 m)))]\<rparr>,
           ?s1\<lparr>messages := update_first ?P (mark_processed e2) (messages ?s1)\<rparr>)"
    using found(1) f1 by (rule put_processed_found)
  moreover have "\<dots> = put_processed castObjectId e2 i s"
  proof -
    have "put_processed castObjectId e2 i s =
            (\<lparr>status = 200,
              body = [(''status'', RStr ''ok''),
                      (''message'', RStr ''Message marked as processed''),
                      (''data'', RMessage (mark_processed e2 m))]\<rparr>,
             s\<lparr>messages := update_first ?P (mark_processed e2) (messages s)\<rparr>)"
      using found by (rule put_processed_found)
    then show ?thesis
      using update_first_twice [of ?P "mark_processed e1" "mark_processed e2" "messages s"]
        keep over
      by simp
  qed
  moreover have "snd (put_processed castObjectId e1 i s) = ?s1"
  proof -
    have "put_processed castObjectId e1 i s =
            (\<lparr>status = 200,
              body = [(''status'', RStr ''ok''),
                      (''message'', RStr ''Message marked as processed''),
                      (''data'', RMessage (mark_processed e1 m))]\<rparr>, ?s1)"
      using found by (rule put_processed_found)
    then show ?thesis by simp
  qed
  ultimately show ?thesis
    by simp
qed

lemma find_None_no_id:
  "find (\<lambda>m. m_id m = k) ms = None \<longleftrightarrow> (\<forall>m \<in> set ms. m_id m \<noteq> k)"
  by (auto simp: find_None_iff)

lemma put_processed_status_404:
  "status (fst (put_processed castObjectId e i s)) = 404 \<longleftrightarrow>
     (\<exists>k. castObjectId i = Some k \<and> find (\<lambda>m. m_id m = k) (messages s) = None)"
proof (cases rule: put_processed_cases [where castObjectId = castObjectId and i = i and s = s])
  case cast_error
  then show ?thesis
    by (simp add: put_processed_cast_error internal_error_def)
next
  case (not_found k)
  then show ?thesis
    by (simp add: put_processed_not_found)
next
  case (found k m)
  have "put_processed castObjectId e i s =
          (\<lparr>status = 200,
            body = [(''status'', RStr ''ok''),
                    (''message'', RStr ''Message marked as processed''),
                    (''data'', RMessage (mark_processed e m))]\<rparr>,
           s\<lparr>messages := update_first (\<lambda>m. m_id m = k) (mark_processed e) (messages s)\<rparr>)"
    using found by (rule put_processed_found)
  with found show ?thesis
    by simp
qed

text \<open>
  Claim C2, as the code has it. PUT /api/messages/:id/processed with an identifier
  that cannot be cast to an ObjectId is answered with 500, with a well-formed
  identifier of no record with 404; in both cases the database is left as it was.
  With the identifier of a record, the answer is 200 with the updated record: its
  \<open>processed\<close> is true and its \<open>processed_at\<close> is the time of the request (so it is set),
  which is at or after \<open>created_at\<close> whenever the clock of the request has not fallen
  behind the record's \<open>created_at\<close>. Every other record, the SIM cards and the source of
  identifiers are unchanged.
\<close>
theorem put_processed_contract:
  "(castObjectId i = None \<longrightarrow> put_processed castObjectId e i s = (internal_error, s)) \<and>
   (\<forall>k. castObjectId i = Some k \<and> (\<forall>m \<in> set (messages s). m_id m \<noteq> k) \<longrightarrow>
      put_processed castObjectId e i s =
        (\<lparr>status = 404, body = [(''error'', RStr ''Message not found'')]\<rparr>, s)) \<and>
   (\<forall>k m. castObjectId i = Some k \<and> find (\<lambda>m. m_id m = k) (messages s) = Some m \<longrightarrow>
      (\<exists>m' s'.
         put_processed castObjectId e i s =
           (\<lparr>status = 200,
             body = [(''status'', RStr ''ok''),
                     (''message'', RStr ''Message marked as processed''),
                     (''data'', RMessage m')]\<rparr>, s') \<and>
         m' = m\<lparr>m_processed := True, m_processed_at := Some (now e)\<rparr> \<and>
         find (\<lambda>m. m_id m = k) (messages s') = Some m' \<and>
         m_processed m' = True \<and>
         m_processed_at m' \<noteq> None \<and>
         (m_created_at m \<le> now e \<longrightarrow>
            (\<exists>t. m_processed_at m' = Some t \<and> m_created_at m' \<le> t)) \<and>
         list_all2 (\<lambda>x y. y = x \<or> (m_id x = k \<and> y = mark_processed e x))
           (messages s) (messages s') \<and>
         sim_cards s' = sim_cards s \<and> next_oid s' = next_oid s))"
proof (intro conjI allI impI)
  assume "castObjectId i = None"
  then show "put_processed castObjectId e i s = (internal_error, s)"
    by (rule put_processed_cast_error)
next
  fix k
  assume "castObjectId i = Some k \<and> (\<forall>m \<in> set (messages s). m_id m \<noteq> k)"
  then have "castObjectId i = Some k" "find (\<lambda>m. m_id m = k) (messages s) = None"
    by (simp_all add: find_None_no_id)
  then show "put_processed castObjectId e i s =
        (\<lparr>status = 404, body = [(''error'', RStr ''Message not found'')]\<rparr>, s)"
    by (rule put_processed_not_found)
next
  fix k m
  assume "castObjectId i = Some k \<and> find (\<lambda>m. m_id m = k) (messages s) = Some m"
  then have found: "castObjectId i = Some k" "find (\<lambda>m. m_id m = k) (messages s) = Some m"
    by simp_all
  let ?P = "\<lambda>m. m_id m = k"
  let ?m' = "mark_processed e m"
  let ?s' = "s\<lparr>messages := update_first ?P (mark_processed e) (messages s)\<rparr>"
  have "put_processed castObjectId e i s =
          (\<lparr>status = 200,
            body = [(''status'', RStr ''ok''),
                    (''message'', RStr ''Message marked as processed''),
                    (''data'', RMessage ?m')]\<rparr>, ?s')"
    using found by (rule put_processed_found)
  moreover have "?m' = m\<lparr>m_processed := True, m_processed_at := Some (now e)\<rparr>"
    by (simp add: mark_processed_def)
  moreover have "find ?P (messages ?s') = Some ?m'"
    using found(2) find_update_first [of ?P "mark_processed e" "messages s"]
    by (simp add: mark_processed_def)
  moreover have "m_processed ?m' = True" "m_processed_at ?m' \<noteq> None"
    by (simp_all add: mark_processed_def)
  moreover have "m_created_at m \<le> now e \<longrightarrow>
            (\<exists>t. m_processed_at ?m' = Some t \<and> m_created_at ?m' \<le> t)"
    by (simp add: mark_processed_def)
  moreover have "list_all2 (\<lambda>x y. y = x \<or> (m_id x = k \<and> y = mark_processed e x))
           (messages s) (messages ?s')"
    using update_first_list_all2 [of ?P "mark_processed e" "messages s"] by simp
  moreover have "sim_cards ?s' = sim_cards s" "next_oid ?s' = next_oid s"
    by simp_all
  ultimately show "\<exists>m' s'.
         put_processed castObjectId e i s =
           (\<lparr>status = 200,
             body = [(''status'', RStr ''ok''),
                     (''message'', RStr ''Message marked as processed''),
                     (''data'', RMessage m')]\<rparr>, s') \<and>
         m' = m\<lparr>m_processed := True, m_processed_at := Some (now e)\<rparr> \<and>
         find (\<lambda>m. m_id m = k) (messages s') = Some m' \<and>
         m_processed m' = True \<and>
         m_processed_at m' \<noteq> None \<and>
         (m_created_at m \<le> now e \<longrightarrow>
            (\<exists>t. m_processed_at m' = Some t \<and> m_created_at m' \<le> t)) \<and>
         list_all2 (\<lambda>x y. y = x \<or> (m_id x = k \<and> y = mark_processed e x))
           (messages s) (messages s') \<and>
         sim_cards s' = sim_cards s \<and> next_oid s' = next_oid s"
    by blast
qed

text \<open>
  The theorem at a malformed identifier, at a well-formed identifier of no record,
  and at the identifier of the stored message.
\<close>
theorem put_processed_contract_witness:
  "hex_castObjectId ''abc'' = None \<and>
   put_processed hex_castObjectId (env_at 2000) ''abc'' db_hello = (internal_error, db_hello) \<and>
   hex_castObjectId ''00000000000000000000000a'' = Some 10 \<and>
   find (\<lambda>m. m_id m = 10) (messages db_hello) = None \<and>
   put_processed hex_castObjectId (env_at 2000) ''00000000000000000000000a'' db_hello =
     (\<lparr>status = 404, body = [(''error'', RStr ''Message not found'')]\<rparr>, db_hello) \<and>
   hex_castObjectId ''000000000000000000000000'' = Some 0 \<and>
   find (\<lambda>m. m_id m = 0) (messages db_hello) = Some message_hello \<and>
   m_created_at message_hello \<le> now (env_at 2000) \<and>
   put_processed hex_castObjectId (env_at 2000) ''000000000000000000000000'' db_hello =
     (\<lparr>status = 200,
       body = [(''status'', RStr ''ok''),
               (''message'', RStr ''Message marked as processed''),
               (''data'', RMessage (message_hello\<lparr>m_processed := True,
                                       m_processed_at := Some 2000\<rparr>))]\<rparr>,
      db_hello\<lparr>messages := [message_hello\<lparr>m_processed := True,
                                m_processed_at := Some 2000\<rparr>]\<rparr>)"
  using put_processed_contract [of hex_castObjectId "''abc''" "env_at 2000" db_hello]
    put_processed_contract [of hex_castObjectId "''00000000000000000000000a''" "env_at 2000" db_hello]
    put_processed_contract [of hex_castObjectId "''000000000000000000000000''" "env_at 2000" db_hello]
  by (simp add: hex_cast_abc hex_cast_ten hex_cast_zero db_hello_eq message_hello_def env_at_def
      put_processed_def findByIdAndUpdate_def mark_processed_def)

text \<open>
  Claim C2 as it is stated fails: the identifier abc belongs to no record, and the
  answer is 500, not 404. And a request whose clock reads 500 stamps \<open>processed_at\<close>
  with 500 on a record whose \<open>created_at\<close> is 1000.
\<close>
theorem put_processed_unknown_id_counterexample:
  "messages empty_db = [] \<and>
   status (fst (put_processed hex_castObjectId (env_at 2000) ''abc'' empty_db)) = 500 \<and>
   find (\<lambda>m. m_id m = 0) (messages db_hello) = Some message_hello \<and>
   m_created_at message_hello = 1000 \<and>
   fst (put_processed hex_castObjectId (env_at 500) ''000000000000000000000000'' db_hello) =
     \<lparr>status = 200,
      body = [(''status'', RStr ''ok''),
              (''message'', RStr ''Message marked as processed''),
              (''data'', RMessage (message_hello\<lparr>m_processed := True,
                                      m_processed_at := Some 500\<rparr>))]\<rparr>"
  by (simp add: hex_cast_abc hex_cast_zero db_hello_eq message_hello_def env_at_def empty_db_def
      put_processed_def findByIdAndUpdate_def mark_processed_def internal_error_def)

text \<open>
  Claim C10. When the identifier of PUT /api/messages/:id/processed cannot be cast to
  an ObjectId, the lookup throws and the answer is the generic 500 internal error, with
  the database left as it was. The answer is 404 exactly when the identifier is
  well-formed and no record has it.
\<close>
theorem put_processed_malformed_id:
  "(castObjectId i = None \<longrightarrow>
      put_processed castObjectId e i s =
        (\<lparr>status = 500, body = [(''error'', RStr ''Internal server error'')]\<rparr>, s)) \<and>
   (status (fst (put_processed castObjectId e i s)) = 404 \<longleftrightarrow>
      (\<exists>k. castObjectId i = Some k \<and> (\<forall>m \<in> set (messages s). m_id m \<noteq> k)))"
  using put_processed_cast_error [of castObjectId i e s]
    put_processed_status_404 [of castObjectId e i s]
  by (simp add: internal_error_def find_None_no_id)

text \<open>The theorem at the identifier abc and at a well-formed identifier of no record.\<close>
theorem put_processed_malformed_id_witness:
  "hex_castObjectId ''abc'' = None \<and>
   put_processed hex_castObjectId (env_at 2000) ''abc'' db_hello =
     (\<lparr>status = 500, body = [(''error'', RStr ''Internal server error'')]\<rparr>, db_hello) \<and>
   hex_castObjectId ''00000000000000000000000a'' = Some 10 \<and>
   list_all (\<lambda>m. m_id m \<noteq> 10) (messages db_hello) \<and>
   status (fst (put_processed hex_castObjectId (env_at 2000) ''00000000000000000000000a''
     db_hello)) = 404"
  using put_processed_malformed_id [of hex_castObjectId "''abc''" "env_at 2000" db_hello]
    put_processed_malformed_id [of hex_castObjectId "''00000000000000000000000a''" "env_at 2000"
      db_hello]
  by (simp add: hex_cast_abc hex_cast_ten db_hello_eq)

text \<open>
  Claim C7. Marking a record that is already processed succeeds: the answer is 200,
  \<open>processed\<close> stays true and \<open>processed_at\<close> becomes the time of the later request.
  Two requests in a row for the same identifier leave the database, and give the
  answer, that the later request alone would.
\<close>
theorem put_processed_again:
  "(castObjectId i = Some k \<and> find (\<lambda>m. m_id m = k) (messages s) = Some m \<and> m_processed m \<longrightarrow>
      (\<exists>s'. put_processed castObjectId e2 i s =
               (\<lparr>status = 200,
                 body = [(''status'', RStr ''ok''),
                         (''message'', RStr ''Message marked as processed''),
                         (''data'', RMessage (m\<lparr>m_processed_at := Some (now e2)\<rparr>))]\<rparr>, s') \<and>
            find (\<lambda>m. m_id m = k) (messages s') = Some (m\<lparr>m_processed_at := Some (now e2)\<rparr>) \<and>
            m_processed (m\<lparr>m_processed_at := Some (now e2)\<rparr>) = True)) \<and>
   put_processed castObjectId e2 i (snd (put_processed castObjectId e1 i s)) =
     put_processed castObjectId e2 i s"
proof (intro conjI impI)
  assume a: "castObjectId i = Some k \<and> find (\<lambda>m. m_id m = k) (messages s) = Some m \<and>
    m_processed m"
  then have found: "castObjectId i = Some k" "find (\<lambda>m. m_id m = k) (messages s) = Some m"
    by simp_all
  let ?P = "\<lambda>m. m_id m = k"
  let ?s' = "s\<lparr>messages := update_first ?P (mark_processed e2) (messages s)\<rparr>"
  from a have same: "mark_processed e2 m = m\<lparr>m_processed_at := Some (now e2)\<rparr>"
    by (simp add: mark_processed_def)
  have "put_processed castObjectId e2 i s =
          (\<lparr>status = 200,
            body = [(''status'', RStr ''ok''),
                    (''message'', RStr ''Message marked as processed''),
                    (''data'', RMessage (mark_processed e2 m))]\<rparr>, ?s')"
    using found by (rule put_processed_found)
  moreover have "find ?P (messages ?s') = Some (mark_processed e2 m)"
    using found(2) find_update_first [of ?P "mark_processed e2" "messages s"]
    by (simp add: mark_processed_def)
  moreover from a have "m_processed (m\<lparr>m_processed_at := Some (now e2)\<rparr>) = True"
    by simp
  ultimately show "\<exists>s'. put_processed castObjectId e2 i s =
               (\<lparr>status = 200,
                 body = [(''status'', RStr ''ok''),
                         (''message'', RStr ''Message marked as processed''),
                         (''data'', RMessage (m\<lparr>m_processed_at := Some (now e2)\<rparr>))]\<rparr>, s') \<and>
            find (\<lambda>m. m_id m = k) (messages s') = Some (m\<lparr>m_processed_at := Some (now e2)\<rparr>) \<and>
            m_processed (m\<lparr>m_processed_at := Some (now e2)\<rparr>) = True"
    unfolding same by blast
next
  show "put_processed castObjectId e2 i (snd (put_processed castObjectId e1 i s)) =
     put_processed castObjectId e2 i s"
    by (rule put_processed_twice)
qed

lemma db_hello_processed_eq:
  "db_hello_processed =
     \<lparr>messages = [message_hello\<lparr>m_processed := True, m_processed_at := Some 2000\<rparr>],
      sim_cards = [], next_oid = 1\<rparr>"
  by (simp add: db_hello_processed_def hex_cast_zero db_hello_eq message_hello_def env_at_def
      put_processed_def findByIdAndUpdate_def mark_processed_def)

text \<open>The theorem at the message processed at 2000 and marked again at 3000.\<close>
theorem put_processed_again_witness:
  "hex_castObjectId ''000000000000000000000000'' = Some 0 \<and>
   find (\<lambda>m. m_id m = 0) (messages db_hello_processed) =
     Some (message_hello\<lparr>m_processed := True, m_processed_at := Some 2000\<rparr>) \<and>
   m_processed (message_hello\<lparr>m_processed := True, m_processed_at := Some 2000\<rparr>) \<and>
   put_processed hex_castObjectId (env_at 3000) ''000000000000000000000000'' db_hello_processed =
     (\<lparr>status = 200,
       body = [(''status'', RStr ''ok''),
               (''message'', RStr ''Message marked as processed''),
               (''data'', RMessage (message_hello\<lparr>m_processed := True,
                                       m_processed_at := Some 3000\<rparr>))]\<rparr>,
      \<lparr>messages = [message_hello\<lparr>m_processed := True, m_processed_at := Some 3000\<rparr>],
       sim_cards = [], next_oid = 1\<rparr>)"
  using put_processed_again [of hex_castObjectId "''000000000000000000000000''" 0
      db_hello_processed "message_hello\<lparr>m_processed := True, m_processed_at := Some 2000\<rparr>"
      "env_at 3000" "env_at 2000"]
  by (simp add: hex_cast_zero db_hello_processed_eq message_hello_def env_at_def
      put_processed_def findByIdAndUpdate_def mark_processed_def)

subsection \<open>GET /api/messages\<close>

lemma cast_field_plain:
  assumes "plain_filter x"
  shows "cast_field lib (case x of Some v \<Rightarrow> if q_truthy v then Some v else None | None \<Rightarrow> None) =
           Some (\<lambda>z. x = None \<or> x = Some (QStr []) \<or> x = Some (QStr z))"
proof (cases x)
  case None
  then show ?thesis
    by (simp add: cast_field_def)
next
  case (Some v)
  with assms obtain y where v: "v = QStr y"
    by (cases v) (simp_all add: plain_filter_def)
  show ?thesis
  proof (cases "y = []")
    case True
    with Some v show ?thesis
      by (simp add: cast_field_def)
  next
    case False
    with Some v show ?thesis
      by (auto simp: cast_field_def fun_eq_iff)
  qed
qed

lemma cast_query_plain:
  assumes "plain_filter (q_sim_id q)" and "plain_filter (q_type q)"
  shows "cast_query lib (build_query q) = Some (selected q)"
proof -
  have "selected q =
          (\<lambda>m. (q_sim_id q = None \<or> q_sim_id q = Some (QStr []) \<or>
                 q_sim_id q = Some (QStr (m_sim_id m))) \<and>
                (q_type q = None \<or> q_type q = Some (QStr []) \<or>
                 q_type q = Some (QStr (m_type m))))"
    by (simp add: fun_eq_iff selected_def)
  then show ?thesis
    using cast_field_plain [OF assms(1), of lib] cast_field_plain [OF assms(2), of lib]
    by (simp add: cast_query_def build_query_def)
qed

lemma read_skip_plain:
  assumes "plain_number lib x"
  shows "read_skip lib (case x of None \<Rightarrow> Some 0 | Some v \<Rightarrow> parseInt lib v) =
           Some (count_or lib 0 x)"
  using assms
  by (auto simp: plain_number_def read_skip_def count_or_def split: option.splits)

lemma read_limit_plain:
  assumes "plain_number lib x"
  shows "read_limit lib (case x of None \<Rightarrow> Some 100 | Some v \<Rightarrow> parseInt lib v) =
           Some (count_or lib 100 x)"
  using assms
  by (auto simp: plain_number_def read_limit_def count_or_def split: option.splits)

lemma get_messages_db: "snd (get_messages lib q s) = s"
  by (simp add: get_messages_def Let_def split: sum.splits)

lemma get_messages_plain:
  assumes "plain_query lib q"
  shows "get_messages lib q s =
           (\<lparr>status = 200,
             body = [(''messages'',
                      RMessages (limit_docs (count_or lib 100 (q_limit q))
                        (drop (count_or lib 0 (q_skip q))
                          (sort_timestamp_desc (filter (selected q) (messages s)))))),
                     (''count'',
                      RNum (length (limit_docs (count_or lib 100 (q_limit q))
                        (drop (count_or lib 0 (q_skip q))
                          (sort_timestamp_desc (filter (selected q) (messages s))))))),
                     (''total'', RNum (length (filter (selected q) (messages s))))]\<rparr>, s)"
proof -
  from assms have q: "cast_query lib (build_query q) = Some (selected q)"
    by (simp add: plain_query_def cast_query_plain)
  from assms have k: "read_skip lib (case q_skip q of None \<Rightarrow> Some 0 | Some v \<Rightarrow> parseInt lib v) =
      Some (count_or lib 0 (q_skip q))"
    by (simp add: plain_query_def read_skip_plain)
  from assms have l: "read_limit lib (case q_limit q of None \<Rightarrow> Some 100 | Some v \<Rightarrow> parseInt lib v) =
      Some (count_or lib 100 (q_limit q))"
    by (simp add: plain_query_def read_limit_plain)
  show ?thesis
    by (simp add: get_messages_def Message_find_def Message_countDocuments_def Let_def q k l)
qed

lemma latest_first_sort: "latest_first (sort_timestamp_desc ms)"
proof -
  have "sorted (map (\<lambda>m. - m_timestamp m) (sort_key (\<lambda>m. - m_timestamp m) ms))"
    by (rule sorted_sort_key)
  then show ?thesis
    by (simp add: latest_first_def sort_timestamp_desc_def sorted_wrt_map)
qed

lemma latest_first_drop: "latest_first ms \<Longrightarrow> latest_first (drop n ms)"
  by (simp add: latest_first_def sorted_wrt_drop)

lemma latest_first_take: "latest_first ms \<Longrightarrow> latest_first (take n ms)"
  by (simp add: latest_first_def sorted_wrt_take)

lemma latest_first_limit: "latest_first ms \<Longrightarrow> latest_first (limit_docs n ms)"
  by (simp add: limit_docs_def latest_first_take)

lemma mset_sort_timestamp_desc: "mset (sort_timestamp_desc ms) = mset ms"
  by (simp add: sort_timestamp_desc_def)

lemma page_subset:
  "set (limit_docs l (drop k (sort_timestamp_desc (filter P ms)))) \<subseteq> {m \<in> set ms. P m}"
proof -
  have "set (limit_docs l (drop k (sort_timestamp_desc (filter P ms)))) \<subseteq>
          set (drop k (sort_timestamp_desc (filter P ms)))"
    by (auto simp: limit_docs_def dest: in_set_takeD)
  also have "\<dots> \<subseteq> set (sort_timestamp_desc (filter P ms))"
    by (rule set_drop_subset)
  also have "\<dots> = {m \<in> set ms. P m}"
    by (simp add: sort_timestamp_desc_def)
  finally show ?thesis .
qed

lemma page_length:
  "length (limit_docs l (drop k (sort_timestamp_desc (filter P ms)))) \<le> length (filter P ms)"
  by (auto simp: limit_docs_def sort_timestamp_desc_def min_def)

lemma get_messages_shape:
  "fst (get_messages lib q s) = internal_error \<or>
   (\<exists>page total.
      fst (get_messages lib q s) =
        \<lparr>status = 200,
         body = [(''messages'', RMessages page), (''count'', RNum (length page)),
                 (''total'', RNum total)]\<rparr> \<and>
      latest_first page \<and> set page \<subseteq> set (messages s) \<and>
      length page \<le> total \<and> total \<le> length (messages s))"
proof (cases "Message_find lib (build_query q)
    (case q_skip q of None \<Rightarrow> Some 0 | Some v \<Rightarrow> parseInt lib v)
    (case q_limit q of None \<Rightarrow> Some 100 | Some v \<Rightarrow> parseInt lib v) s")
  case (Inl err)
  then show ?thesis
    by (simp add: get_messages_def Let_def)
next
  case (Inr page)
  then obtain P k l where P: "cast_query lib (build_query q) = Some P"
    and page: "page = limit_docs l (drop k (sort_timestamp_desc (filter P (messages s))))"
    by (auto simp: Message_find_def split: option.splits)
  let ?total = "length (filter P (messages s))"
  have "fst (get_messages lib q s) =
        \<lparr>status = 200,
         body = [(''messages'', RMessages page), (''count'', RNum (length page)),
                 (''total'', RNum ?total)]\<rparr>"
    using Inr P by (simp add: get_messages_def Message_countDocuments_def Let_def)
  moreover have "latest_first page"
    unfolding page by (intro latest_first_limit latest_first_drop latest_first_sort)
  moreover have "set page \<subseteq> set (messages s)"
    unfolding page using page_subset [of l k P "messages s"] by blast
  moreover have "length page \<le> ?total"
    unfolding page by (rule page_length)
  moreover have "?total \<le> length (messages s)"
    by (rule length_filter_le)
  ultimately show ?thesis
    by blast
qed

lemma get_messages_negative_skip:
  assumes "q_skip q = Some v" and "parseInt lib v = Some n" and "n < 0"
  shows "get_messages lib q s = (internal_error, s)"
  using assms
  by (simp add: get_messages_def Message_find_def read_skip_def Let_def split: option.splits)

text \<open>
  Claim C4, as the code has it. GET /api/messages never changes the database. For a
  query whose \<open>sim_id\<close> and \<open>type\<close>, when given, are strings and whose \<open>limit\<close> and \<open>skip\<close>,
  when given, are read by \<open>parseInt\<close> as numbers from 0 to 2147483647, the answer is 200:
  a record matches when its \<open>sim_id\<close> equals the parameter \<open>sim_id\<close> and its \<open>type\<close> equals
  the parameter \<open>type\<close>, where a parameter that is absent (or empty) matches every
  record; the matching records are put in descending order of \<open>timestamp\<close>, whatever
  the insertion order; \<open>skip\<close> (default 0) of them are dropped and at most \<open>limit\<close>
  (default 100, and 0 for no limit) of the rest are returned; \<open>total\<close> is the number of
  matching records and \<open>count\<close> the number of returned records. For every other query
  the handler passes the values on as they are: the answer is 500 when the store
  refuses them, as it does for a negative \<open>skip\<close>, and otherwise 200 with a page of
  stored records, latest first, with \<open>count\<close> its length and \<open>total\<close> at least that.
\<close>

theorem list_messages_contract:
  "snd (get_messages lib q s) = s \<and>
   (plain_query lib q \<longrightarrow>
      (\<exists>ordered page.
         get_messages lib q s =
           (\<lparr>status = 200,
             body = [(''messages'', RMessages page),
                     (''count'', RNum (length page)),
                     (''total'', RNum (length (filter (selected q) (messages s))))]\<rparr>, s) \<and>
         mset ordered = mset (filter (selected q) (messages s)) \<and>
         latest_first ordered \<and>
         page =
           (let skip = count_or lib 0 (q_skip q);
                limit = count_or lib 100 (q_limit q)
            in if limit = 0 then drop skip ordered else take limit (drop skip ordered)) \<and>
         latest_first page \<and>
         set page \<subseteq> {m \<in> set (messages s). selected q m})) \<and>
   (fst (get_messages lib q s) = internal_error \<or>
    (\<exists>page total.
       fst (get_messages lib q s) =
         \<lparr>status = 200,
          body = [(''messages'', RMessages page), (''count'', RNum (length page)),
                  (''total'', RNum total)]\<rparr> \<and>
       latest_first page \<and> set page \<subseteq> set (messages s) \<and>
       length page \<le> total \<and> total \<le> length (messages s))) \<and>
   (\<forall>v n. q_skip q = Some v \<and> parseInt lib v = Some n \<and> n < 0 \<longrightarrow>
      get_messages lib q s = (internal_error, s))"
proof (intro conjI impI allI)
  show "snd (get_messages lib q s) = s"
    by (rule get_messages_db)
next
  assume plain: "plain_query lib q"
  let ?matching = "filter (selected q) (messages s)"
  let ?ordered = "sort_timestamp_desc ?matching"
  let ?skip = "count_or lib 0 (q_skip q)"
  let ?limit = "count_or lib 100 (q_limit q)"
  let ?page = "limit_docs ?limit (drop ?skip ?ordered)"
  have "get_messages lib q s =
       (\<lparr>status = 200,
         body = [(''messages'', RMessages ?page),
                 (''count'', RNum (length ?page)),
                 (''total'', RNum (length ?matching))]\<rparr>, s)"
    using plain by (rule get_messages_plain)
  moreover have "mset ?ordered = mset ?matching"
    by (rule mset_sort_timestamp_desc)
  moreover have "latest_first ?ordered"
    by (rule latest_first_sort)
  moreover have "?page = (let skip = ?skip; limit = ?limit
        in if limit = 0 then drop skip ?ordered else take limit (drop skip ?ordered))"
    by (simp add: limit_docs_def Let_def)
  moreover have "latest_first ?page"
    by (intro latest_first_limit latest_first_drop latest_first_sort)
  moreover have "set ?page \<subseteq> {m \<in> set (messages s). selected q m}"
    by (rule page_subset)
  ultimately show "\<exists>ordered page.
         get_messages lib q s =
           (\<lparr>status = 200,
             body = [(''messages'', RMessages page),
                     (''count'', RNum (length page)),
                     (''total'', RNum (length (filter (selected q) (messages s))))]\<rparr>, s) \<and>
         mset ordered = mset (filter (selected q) (messages s)) \<and>
         latest_first ordered \<and>
         page =
           (let skip = count_or lib 0 (q_skip q);
                limit = count_or lib 100 (q_limit q)
            in if limit = 0 then drop skip ordered else take limit (drop skip ordered)) \<and>
         latest_first page \<and>
         set page \<subseteq> {m \<in> set (messages s). selected q m}"
    by blast
next
  show "fst (get_messages lib q s) = internal_error \<or>
    (\<exists>page total.
       fst (get_messages lib q s) =
         \<lparr>status = 200,
          body = [(''messages'', RMessages page), (''count'', RNum (length page)),
                  (''total'', RNum total)]\<rparr> \<and>
       latest_first page \<and> set page \<subseteq> set (messages s) \<and>
       length page \<le> total \<and> total \<le> length (messages s))"
    by (rule get_messages_shape)
next
  fix v n
  assume "q_skip q = Some v \<and> parseInt lib v = Some n \<and> n < 0"
  then show "get_messages lib q s = (internal_error, s)"
    by (simp add: get_messages_negative_skip)
qed

text \<open>
  The theorem at a collection of three messages inserted out of order, for the
  queries \<open>sim_id=SIM001&limit=1&skip=1\<close> and \<open>skip=-1\<close>.
\<close>

theorem list_messages_contract_witness:
  "plain_query plain_lib query_sim001 \<and>
   get_messages plain_lib query_sim001 db_three =
     (\<lparr>status = 200,
       body = [(''messages'', RMessages [message_at 0 ''SIM001'' 2000]),
               (''count'', RNum 1),
               (''total'', RNum 3)]\<rparr>, db_three) \<and>
   filter (selected query_sim001) (messages db_three) =
     [message_at 0 ''SIM001'' 2000, message_at 2 ''SIM001'' 1000, message_at 3 ''SIM001'' 3000] \<and>
   latest_first [message_at 3 ''SIM001'' 3000, message_at 0 ''SIM001'' 2000,
     message_at 2 ''SIM001'' 1000] \<and>
   q_skip query_skip_minus_one = Some (QStr ''-1'') \<and>
   parseInt plain_lib (QStr ''-1'') = Some (- 1) \<and>
   get_messages plain_lib query_skip_minus_one db_three = (internal_error, db_three)"
  using list_messages_contract [of plain_lib query_sim001 db_three]
    list_messages_contract [of plain_lib query_skip_minus_one db_three]
  by (simp add: get_messages_def Message_find_def Message_countDocuments_def build_query_def
      cast_query_def cast_field_def read_skip_def read_limit_def plain_query_def
      plain_filter_def plain_number_def count_or_def selected_def latest_first_def
      sort_timestamp_desc_def limit_docs_def query_sim001_def query_skip_minus_one_def
      db_three_def message_at_def plain_lib_def decimal_digit_def)

text \<open>
  Claim C4 as it is stated fails: the query \<open>skip=-1\<close> is not answered with a list,
  a count and a total, but with 500.
\<close>

theorem list_messages_negative_skip_counterexample:
  "q_skip query_skip_minus_one = Some (QStr ''-1'') \<and>
   parseInt plain_lib (QStr ''-1'') = Some (- 1) \<and>
   fst (get_messages plain_lib query_skip_minus_one db_three) =
     \<lparr>status = 500, body = [(''error'', RStr ''Internal server error'')]\<rparr>"
  by (simp add: get_messages_def Message_find_def Message_countDocuments_def build_query_def
      cast_query_def cast_field_def read_skip_def query_skip_minus_one_def
      plain_lib_def decimal_digit_def internal_error_def)

subsection \<open>POST /api/sim-cards\<close>

lemma simCardValidation_Inr:
  "simCardValidation b = Inr v \<longleftrightarrow>
     map_of b ''sim_id'' = Some (JStr (w_sim_id v)) \<and> w_sim_id v \<noteq> [] \<and>
     map_of b ''phone_number'' = Some (JStr (w_phone_number v)) \<and> w_phone_number v \<noteq> [] \<and>
     (case map_of b ''carrier'' of None \<Rightarrow> w_carrier v = None
      | Some x \<Rightarrow> (\<exists>y. x = JStr y \<and> y \<noteq> [] \<and> w_carrier v = Some y)) \<and>
     joi_boolean ''is_active'' b = Inr (w_is_active v) \<and>
     (\<forall>k \<in> set (map fst b). k \<in> set sim_card_keys)"
  unfolding simCardValidation_def joi_then_Inr joi_string_required_Inr joi_string_Inr
    joi_unknown_Inr
  by (cases v) (auto split: option.splits)

lemma post_sim_cards_rejected:
  assumes "simCardValidation b = Inl err"
  shows "post_sim_cards e b s = (\<lparr>status = 400, body = [(''error'', RJoi err)]\<rparr>, s)"
  using assms by (simp add: post_sim_cards_def)

lemma SimCard_findOne_None:
  "SimCard_findOne x s = None \<longleftrightarrow> (\<forall>c \<in> set (sim_cards s). sc_sim_id c \<noteq> x)"
  by (auto simp: SimCard_findOne_def find_None_iff)

lemma post_sim_cards_conflict:
  assumes "simCardValidation b = Inr v" and "\<exists>c \<in> set (sim_cards s). sc_sim_id c = w_sim_id v"
  shows "post_sim_cards e b s =
           (\<lparr>status = 409, body = [(''error'', RStr ''SIM card already registered'')]\<rparr>, s)"
proof -
  from assms(2) have "SimCard_findOne (w_sim_id v) s \<noteq> None"
    by (simp add: SimCard_findOne_None)
  then obtain c where "SimCard_findOne (w_sim_id v) s = Some c"
    by auto
  with assms(1) show ?thesis
    by (simp add: post_sim_cards_def)
qed

lemma post_sim_cards_saved:
  assumes "simCardValidation b = Inr v" and "\<forall>c \<in> set (sim_cards s). sc_sim_id c \<noteq> w_sim_id v"
  shows "post_sim_cards e b s =
           (\<lparr>status = 201,
             body = [(''status'', RStr ''ok''), (''sim_card'', RSimCard (new_SimCard e s v))]\<rparr>,
            s\<lparr>sim_cards := sim_cards s @ [new_SimCard e s v], next_oid := Suc (next_oid s)\<rparr>)"
proof -
  from assms(2) have none: "SimCard_findOne (w_sim_id v) s = None"
    by (simp add: SimCard_findOne_None)
  from assms(1) have valid: "simCardSchema_valid (new_SimCard e s v)"
    unfolding simCardValidation_Inr by (simp add: simCardSchema_valid_def new_SimCard_def)
  from assms(2) have fresh: "\<not> list_ex (\<lambda>c'. sc_sim_id c' = sc_sim_id (new_SimCard e s v)) (sim_cards s)"
    by (auto simp: list_ex_iff new_SimCard_def)
  from assms(1) none valid fresh show ?thesis
    by (simp add: post_sim_cards_def save_sim_card_def)
qed

lemma post_sim_cards_cases:
  obtains (rejected) err where "simCardValidation b = Inl err"
  | (conflict) v where "simCardValidation b = Inr v"
      "\<exists>c \<in> set (sim_cards s). sc_sim_id c = w_sim_id v"
  | (saved) v where "simCardValidation b = Inr v"
      "\<forall>c \<in> set (sim_cards s). sc_sim_id c \<noteq> w_sim_id v"
  by (cases "simCardValidation b") blast+

subsection \<open>What each request changes\<close>

lemma post_messages_cases:
  obtains (rejected) err where "messageValidation toDate b = Inl err"
  | (saved) v where "messageValidation toDate b = Inr v"
  by (cases "messageValidation toDate b") blast+

lemma post_messages_sim_cards: "sim_cards (snd (post_messages toDate e b s)) = sim_cards s"
  by (cases rule: post_messages_cases [where toDate = toDate and b = b])
    (simp_all add: post_messages_rejected post_messages_saved)

lemma put_processed_sim_cards: "sim_cards (snd (put_processed castObjectId e i s)) = sim_cards s"
  by (auto simp: put_processed_def findByIdAndUpdate_def split: option.splits)

lemma put_processed_messages:
  "list_all2 (\<lambda>x y. y = x \<or> y = mark_processed e x)
     (messages s) (messages (snd (put_processed castObjectId e i s)))"
proof (cases rule: put_processed_cases [where castObjectId = castObjectId and i = i and s = s])
  case cast_error
  then show ?thesis by (simp add: put_processed_cast_error list_all2_refl)
next
  case (not_found k)
  then show ?thesis by (simp add: put_processed_not_found list_all2_refl)
next
  case (found k m)
  have "put_processed castObjectId e i s =
          (\<lparr>status = 200,
            body = [(''status'', RStr ''ok''),
                    (''message'', RStr ''Message marked as processed''),
                    (''data'', RMessage (mark_processed e m))]\<rparr>,
           s\<lparr>messages := update_first (\<lambda>m. m_id m = k) (mark_processed e) (messages s)\<rparr>)"
    using found by (rule put_processed_found)
  moreover have "list_all2 (\<lambda>x y. y = x \<or> y = mark_processed e x) (messages s)
     (update_first (\<lambda>m. m_id m = k) (mark_processed e) (messages s))"
    by (rule list_all2_mono [OF update_first_list_all2]) auto
  ultimately show ?thesis by simp
qed

lemma post_sim_cards_messages: "messages (snd (post_sim_cards e b s)) = messages s"
  by (cases rule: post_sim_cards_cases [where b = b and s = s])
    (simp_all add: post_sim_cards_rejected post_sim_cards_conflict post_sim_cards_saved)

lemma send_sms_db: "snd (send_sms e b s) = s"
  by (auto simp: send_sms_def split: option.splits)

lemma handle_other_messages:
  assumes "\<forall>b. r \<noteq> PostMessages b" and "\<forall>i. r \<noteq> PutProcessed i"
  shows "messages (snd (handle toDate castObjectId lib e r s)) = messages s"
  using assms
  by (cases r)
    (simp_all add: health_def get_messages_db get_sim_cards_def post_sim_cards_messages
      simakohost_status_def send_sms_db Let_def)

lemma handle_other_sim_cards:
  assumes "\<forall>b. r \<noteq> PostSimCards b"
  shows "sim_cards (snd (handle toDate castObjectId lib e r s)) = sim_cards s"
  using assms
  by (cases r)
    (simp_all add: health_def get_messages_db get_sim_cards_def post_messages_sim_cards
      put_processed_sim_cards simakohost_status_def send_sms_db Let_def)

lemma post_messages_appends:
  "\<exists>new. messages (snd (post_messages toDate e b s)) = messages s @ new \<and> length new \<le> 1 \<and>
     list_all (\<lambda>m. m_id m = next_oid s \<and> m_processed m = False \<and> m_processed_at m = None \<and>
                    m_created_at m = now e) new"
proof (cases rule: post_messages_cases [where toDate = toDate and b = b])
  case (rejected err)
  then have "messages (snd (post_messages toDate e b s)) = messages s @ []"
    by (simp add: post_messages_rejected)
  then show ?thesis
    by (intro exI [of _ "[]"]) simp
next
  case (saved v)
  then have "messages (snd (post_messages toDate e b s)) = messages s @ [new_Message e s v]"
    by (simp add: post_messages_saved)
  then show ?thesis
    by (intro exI [of _ "[new_Message e s v]"]) (simp add: new_Message_def)
qed

lemma post_sim_cards_appends:
  "\<exists>new. sim_cards (snd (post_sim_cards e b s)) = sim_cards s @ new \<and> length new \<le> 1 \<and>
     list_all (\<lambda>c. sc_id c = next_oid s \<and> sc_created_at c = now e \<and> sc_last_seen c = now e \<and>
                    (\<forall>c' \<in> set (sim_cards s). sc_sim_id c' \<noteq> sc_sim_id c)) new"
proof (cases rule: post_sim_cards_cases [where b = b and s = s])
  case (rejected err)
  then have "sim_cards (snd (post_sim_cards e b s)) = sim_cards s @ []"
    by (simp add: post_sim_cards_rejected)
  then show ?thesis
    by (intro exI [of _ "[]"]) simp
next
  case (conflict v)
  then have "sim_cards (snd (post_sim_cards e b s)) = sim_cards s @ []"
    by (simp add: post_sim_cards_conflict)
  then show ?thesis
    by (intro exI [of _ "[]"]) simp
next
  case (saved v)
  then have "sim_cards (snd (post_sim_cards e b s)) = sim_cards s @ [new_SimCard e s v]"
    by (simp add: post_sim_cards_saved)
  moreover from saved(2)
  have "\<forall>c' \<in> set (sim_cards s). sc_sim_id c' \<noteq> sc_sim_id (new_SimCard e s v)"
    by (simp add: new_SimCard_def)
  ultimately show ?thesis
    by (intro exI [of _ "[new_SimCard e s v]"]) (simp add: new_SimCard_def)
qed

lemma list_all2_set2:
  "list_all2 P xs ys \<Longrightarrow> y \<in> set ys \<Longrightarrow> \<exists>x \<in> set xs. P x y"
  by (induction rule: list_all2_induct) auto

lemma handle_keeps_processed_at:
  assumes "processed_at_iff_processed s"
  shows "processed_at_iff_processed (snd (handle toDate castObjectId lib e r s))"
proof (cases r)
  case (PostMessages b)
  obtain new where new: "messages (snd (post_messages toDate e b s)) = messages s @ new"
    "list_all (\<lambda>m. m_id m = next_oid s \<and> m_processed m = False \<and> m_processed_at m = None \<and>
                    m_created_at m = now e) new"
    using post_messages_appends [of toDate e b s] by blast
  from new(2) have "list_all (\<lambda>m. (m_processed_at m \<noteq> None) = m_processed m) new"
    by (simp add: list_all_iff)
  with assms new(1) PostMessages show ?thesis
    by (simp add: processed_at_iff_processed_def)
next
  case (PutProcessed i)
  have rel: "list_all2 (\<lambda>x y. y = x \<or> y = mark_processed e x)
     (messages s) (messages (snd (put_processed castObjectId e i s)))"
    by (rule put_processed_messages)
  have "list_all (\<lambda>m. (m_processed_at m \<noteq> None) = m_processed m)
          (messages (snd (put_processed castObjectId e i s)))"
    unfolding list_all_iff
  proof
    fix y
    assume "y \<in> set (messages (snd (put_processed castObjectId e i s)))"
    from list_all2_set2 [OF rel this]
    obtain x where "x \<in> set (messages s)" "y = x \<or> y = mark_processed e x"
      by blast
    with assms show "(m_processed_at y \<noteq> None) = m_processed y"
      by (auto simp: processed_at_iff_processed_def list_all_iff mark_processed_def)
  qed
  with PutProcessed show ?thesis
    by (simp add: processed_at_iff_processed_def)
qed (use assms in \<open>simp_all add: processed_at_iff_processed_def health_def get_messages_db
    get_sim_cards_def post_sim_cards_messages simakohost_status_def send_sms_db Let_def\<close>)

lemma handle_keeps_unique_sim_ids:
  assumes "unique_sim_ids s"
  shows "unique_sim_ids (snd (handle toDate castObjectId lib e r s))"
proof (cases r)
  case (PostSimCards b)
  obtain new where new: "sim_cards (snd (post_sim_cards e b s)) = sim_cards s @ new"
    "length new \<le> 1"
    "list_all (\<lambda>c. sc_id c = next_oid s \<and> sc_created_at c = now e \<and> sc_last_seen c = now e \<and>
                    (\<forall>c' \<in> set (sim_cards s). sc_sim_id c' \<noteq> sc_sim_id c)) new"
    using post_sim_cards_appends [of e b s] by blast
  from new(2) have "distinct (map sc_sim_id new)"
    by (cases new) simp_all
  with assms new(1,3) PostSimCards show ?thesis
    by (auto simp: unique_sim_ids_def list_all_iff)
qed (use assms in \<open>simp_all add: unique_sim_ids_def health_def get_messages_db
    get_sim_cards_def post_messages_sim_cards put_processed_sim_cards simakohost_status_def
    send_sms_db Let_def\<close>)

lemma run_keeps:
  assumes "\<And>e r s. P s \<Longrightarrow> P (snd (handle toDate castObjectId lib e r s))" and "P s"
  shows "P (run toDate castObjectId lib rs s)"
  using assms(2)
proof (induction rs arbitrary: s)
  case Nil
  then show ?case by simp
next
  case (Cons er rs)
  obtain e r where "er = (e, r)"
    by (cases er)
  with Cons assms(1) show ?case
    by simp
qed

lemma run_keeps_processed_at:
  assumes "processed_at_iff_processed s"
  shows "processed_at_iff_processed (run toDate castObjectId lib rs s)"
  using handle_keeps_processed_at assms by (rule run_keeps)

lemma run_keeps_unique_sim_ids:
  assumes "unique_sim_ids s"
  shows "unique_sim_ids (run toDate castObjectId lib rs s)"
  using handle_keeps_unique_sim_ids assms by (rule run_keeps)

lemma handle_sim_cards_grow:
  "set (sim_cards s) \<subseteq> set (sim_cards (snd (handle toDate castObjectId lib e r s)))"
proof (cases r)
  case (PostSimCards b)
  then show ?thesis
    using post_sim_cards_appends [of e b s] by auto
qed (simp_all add: health_def get_messages_db get_sim_cards_def post_messages_sim_cards
    put_processed_sim_cards simakohost_status_def send_sms_db Let_def)

lemma run_sim_cards_grow:
  "set (sim_cards s) \<subseteq> set (sim_cards (run toDate castObjectId lib rs s))"
proof (induction rs arbitrary: s)
  case Nil
  then show ?case by simp
next
  case (Cons er rs)
  obtain e r where er: "er = (e, r)"
    by (cases er)
  have "set (sim_cards s) \<subseteq> set (sim_cards (snd (handle toDate castObjectId lib e r s)))"
    by (rule handle_sim_cards_grow)
  also have "\<dots> \<subseteq> set (sim_cards (run toDate castObjectId lib rs
      (snd (handle toDate castObjectId lib e r s))))"
    by (rule Cons.IH)
  finally show ?case
    using er by simp
qed

lemma distinct_filter_one:
  assumes "distinct (map f xs)" and "x \<in> set xs"
  shows "length (filter (\<lambda>y. f y = f x) xs) = 1"
  using assms
proof (induction xs)
  case Nil
  then show ?case by simp
next
  case (Cons a xs)
  show ?case
  proof (cases "f a = f x")
    case True
    with Cons.prems have "\<forall>y \<in> set xs. f y \<noteq> f x"
      by (auto simp: image_iff)
    then have "filter (\<lambda>y. f y = f x) xs = []"
      by (simp add: filter_empty_conv)
    with True show ?thesis by simp
  next
    case False
    with Cons show ?thesis by auto
  qed
qed

subsection \<open>The invariants\<close>

text \<open>
  Claim C5. The invariant that \<open>processed_at\<close> is set exactly when \<open>processed\<close> is true
  is kept by every operation of the service, so it holds after every sequence of
  requests from the empty database. Ingestion appends one record with \<open>processed\<close>
  false and \<open>processed_at\<close> not set, marking a record sets both fields together, and
  every other operation leaves the messages as they are.
\<close>
theorem processed_at_invariant:
  "(processed_at_iff_processed s \<longrightarrow>
      processed_at_iff_processed (snd (handle toDate castObjectId lib e r s))) \<and>
   processed_at_iff_processed (run toDate castObjectId lib rs empty_db) \<and>
   (\<exists>new. messages (snd (post_messages toDate e b s)) = messages s @ new \<and> length new \<le> 1 \<and>
      list_all (\<lambda>m. m_processed m = False \<and> m_processed_at m = None) new) \<and>
   list_all2
     (\<lambda>x y. y = x \<or> y = x\<lparr>m_processed := True, m_processed_at := Some (now e)\<rparr>)
     (messages s) (messages (snd (put_processed castObjectId e i s))) \<and>
   ((\<forall>b. r \<noteq> PostMessages b) \<and> (\<forall>i. r \<noteq> PutProcessed i) \<longrightarrow>
      messages (snd (handle toDate castObjectId lib e r s)) = messages s)"
proof (intro conjI impI)
  assume "processed_at_iff_processed s"
  then show "processed_at_iff_processed (snd (handle toDate castObjectId lib e r s))"
    by (rule handle_keeps_processed_at)
next
  have "processed_at_iff_processed empty_db"
    by (simp add: processed_at_iff_processed_def empty_db_def)
  then show "processed_at_iff_processed (run toDate castObjectId lib rs empty_db)"
    by (rule run_keeps_processed_at)
next
  obtain new where new: "messages (snd (post_messages toDate e b s)) = messages s @ new"
    "length new \<le> 1"
    "list_all (\<lambda>m. m_id m = next_oid s \<and> m_processed m = False \<and> m_processed_at m = None \<and>
                    m_created_at m = now e) new"
    using post_messages_appends [of toDate e b s] by blast
  from new(3) have "list_all (\<lambda>m. m_processed m = False \<and> m_processed_at m = None) new"
    by (simp add: list_all_iff)
  with new(1,2)
  show "\<exists>new. messages (snd (post_messages toDate e b s)) = messages s @ new \<and>
      length new \<le> 1 \<and> list_all (\<lambda>m. m_processed m = False \<and> m_processed_at m = None) new"
    by blast
next
  have "mark_processed e = (\<lambda>x. x\<lparr>m_processed := True, m_processed_at := Some (now e)\<rparr>)"
    by (simp add: fun_eq_iff mark_processed_def)
  with put_processed_messages [of e s castObjectId i]
  show "list_all2
     (\<lambda>x y. y = x \<or> y = x\<lparr>m_processed := True, m_processed_at := Some (now e)\<rparr>)
     (messages s) (messages (snd (put_processed castObjectId e i s)))"
    by simp
next
  assume "(\<forall>b. r \<noteq> PostMessages b) \<and> (\<forall>i. r \<noteq> PutProcessed i)"
  then show "messages (snd (handle toDate castObjectId lib e r s)) = messages s"
    by (simp add: handle_other_messages)
qed

text \<open>The theorem at a message that is ingested at 1000 and marked at 2000.\<close>
theorem processed_at_invariant_witness:
  "processed_at_iff_processed db_hello \<and>
   processed_at_iff_processed
     (snd (handle millis_toDate hex_castObjectId plain_lib (env_at 2000)
        (PutProcessed ''000000000000000000000000'') db_hello)) \<and>
   messages (snd (handle millis_toDate hex_castObjectId plain_lib (env_at 2000)
        (PutProcessed ''000000000000000000000000'') db_hello)) =
     [message_hello\<lparr>m_processed := True, m_processed_at := Some 2000\<rparr>] \<and>
   messages (snd (handle millis_toDate hex_castObjectId plain_lib (env_at 2000) GetSimCards db_hello)) =
     messages db_hello"
  using processed_at_invariant [of db_hello millis_toDate hex_castObjectId plain_lib "env_at 2000"
      "PutProcessed ''000000000000000000000000''" "[]" "[]" "''000000000000000000000000''"]
    processed_at_invariant [of db_hello millis_toDate hex_castObjectId plain_lib "env_at 2000"
      GetSimCards "[]" "[]" "''000000000000000000000000''"]
  by (simp add: processed_at_iff_processed_def db_hello_eq message_hello_def env_at_def
      put_processed_def findByIdAndUpdate_def mark_processed_def hex_cast_zero get_sim_cards_def)

text \<open>
  Claim C3. A registration whose payload passes validation is answered with 201 and
  the stored record when no SIM card has its \<open>sim_id\<close>, and the record is appended. Once
  that has happened, every later registration with a valid payload for the same
  \<open>sim_id\<close> is answered with 409 and the error SIM card already registered, writes
  nothing, and the collection holds exactly one record for that \<open>sim_id\<close>. Every
  operation keeps the \<open>sim_id\<close>s of the collection distinct.
\<close>
theorem register_sim_card:
  "(simCardValidation b = Inr v \<and> (\<forall>c \<in> set (sim_cards s). sc_sim_id c \<noteq> w_sim_id v) \<longrightarrow>
      (\<exists>c. post_sim_cards e b s =
              (\<lparr>status = 201, body = [(''status'', RStr ''ok''), (''sim_card'', RSimCard c)]\<rparr>,
               s\<lparr>sim_cards := sim_cards s @ [c], next_oid := Suc (next_oid s)\<rparr>) \<and>
           sc_id c = next_oid s \<and> sc_sim_id c = w_sim_id v \<and>
           sc_phone_number c = w_phone_number v \<and> sc_carrier c = w_carrier v \<and>
           sc_is_active c = (case w_is_active v of None \<Rightarrow> True | Some a \<Rightarrow> a) \<and>
           sc_created_at c = now e \<and> sc_last_seen c = now e)) \<and>
   (simCardValidation b = Inr v \<and> (\<exists>c \<in> set (sim_cards s). sc_sim_id c = w_sim_id v) \<longrightarrow>
      post_sim_cards e b s =
        (\<lparr>status = 409, body = [(''error'', RStr ''SIM card already registered'')]\<rparr>, s)) \<and>
   (simCardValidation b = Inr v \<and> simCardValidation b' = Inr v' \<and> w_sim_id v' = w_sim_id v \<and>
    unique_sim_ids s \<longrightarrow>
      (let s1 = snd (post_sim_cards e b s); s2 = run toDate castObjectId lib rs s1 in
       post_sim_cards e' b' s2 =
         (\<lparr>status = 409, body = [(''error'', RStr ''SIM card already registered'')]\<rparr>, s2) \<and>
       length (filter (\<lambda>c. sc_sim_id c = w_sim_id v) (sim_cards s2)) = 1)) \<and>
   (unique_sim_ids s \<longrightarrow> unique_sim_ids (snd (handle toDate castObjectId lib e r s))) \<and>
   unique_sim_ids (run toDate castObjectId lib rs empty_db)"
proof (intro conjI impI)
  assume "simCardValidation b = Inr v \<and> (\<forall>c \<in> set (sim_cards s). sc_sim_id c \<noteq> w_sim_id v)"
  then have "post_sim_cards e b s =
           (\<lparr>status = 201,
             body = [(''status'', RStr ''ok''), (''sim_card'', RSimCard (new_SimCard e s v))]\<rparr>,
            s\<lparr>sim_cards := sim_cards s @ [new_SimCard e s v], next_oid := Suc (next_oid s)\<rparr>)"
    by (simp add: post_sim_cards_saved)
  then show "\<exists>c. post_sim_cards e b s =
              (\<lparr>status = 201, body = [(''status'', RStr ''ok''), (''sim_card'', RSimCard c)]\<rparr>,
               s\<lparr>sim_cards := sim_cards s @ [c], next_oid := Suc (next_oid s)\<rparr>) \<and>
           sc_id c = next_oid s \<and> sc_sim_id c = w_sim_id v \<and>
           sc_phone_number c = w_phone_number v \<and> sc_carrier c = w_carrier v \<and>
           sc_is_active c = (case w_is_active v of None \<Rightarrow> True | Some a \<Rightarrow> a) \<and>
           sc_created_at c = now e \<and> sc_last_seen c = now e"
    by (intro exI [of _ "new_SimCard e s v"]) (simp add: new_SimCard_def)
next
  assume "simCardValidation b = Inr v \<and> (\<exists>c \<in> set (sim_cards s). sc_sim_id c = w_sim_id v)"
  then show "post_sim_cards e b s =
        (\<lparr>status = 409, body = [(''error'', RStr ''SIM card already registered'')]\<rparr>, s)"
    by (simp add: post_sim_cards_conflict)
next
  assume a: "simCardValidation b = Inr v \<and> simCardValidation b' = Inr v' \<and>
    w_sim_id v' = w_sim_id v \<and> unique_sim_ids s"
  let ?s1 = "snd (post_sim_cards e b s)"
  let ?s2 = "run toDate castObjectId lib rs ?s1"
  have "\<exists>c \<in> set (sim_cards ?s1). sc_sim_id c = w_sim_id v"
  proof (cases "\<exists>c \<in> set (sim_cards s). sc_sim_id c = w_sim_id v")
    case True
    with a show ?thesis
      by (simp add: post_sim_cards_conflict)
  next
    case False
    with a show ?thesis
      by (simp add: post_sim_cards_saved new_SimCard_def)
  qed
  then obtain c where c: "c \<in> set (sim_cards ?s1)" "sc_sim_id c = w_sim_id v"
    by blast
  from c(1) have c2: "c \<in> set (sim_cards ?s2)"
    using run_sim_cards_grow [of ?s1 toDate castObjectId lib rs] by blast
  have "unique_sim_ids ?s1"
    using a handle_keeps_unique_sim_ids [of s toDate castObjectId lib e "PostSimCards b"] by simp
  then have "unique_sim_ids ?s2"
    by (rule run_keeps_unique_sim_ids)
  then have "length (filter (\<lambda>y. sc_sim_id y = sc_sim_id c) (sim_cards ?s2)) = 1"
    using c2 by (intro distinct_filter_one) (simp_all add: unique_sim_ids_def)
  moreover have "post_sim_cards e' b' ?s2 =
         (\<lparr>status = 409, body = [(''error'', RStr ''SIM card already registered'')]\<rparr>, ?s2)"
    using a c(2) c2 by (intro post_sim_cards_conflict [of b' v']) auto
  ultimately show "let s1 = snd (post_sim_cards e b s); s2 = run toDate castObjectId lib rs s1 in
       post_sim_cards e' b' s2 =
         (\<lparr>status = 409, body = [(''error'', RStr ''SIM card already registered'')]\<rparr>, s2) \<and>
       length (filter (\<lambda>c. sc_sim_id c = w_sim_id v) (sim_cards s2)) = 1"
    using c(2) by (simp add: Let_def)
next
  assume "unique_sim_ids s"
  then show "unique_sim_ids (snd (handle toDate castObjectId lib e r s))"
    by (rule handle_keeps_unique_sim_ids)
next
  have "unique_sim_ids empty_db"
    by (simp add: unique_sim_ids_def empty_db_def)
  then show "unique_sim_ids (run toDate castObjectId lib rs empty_db)"
    by (rule run_keeps_unique_sim_ids)
qed

text \<open>The theorem at the scenario of the specification: SIM001 registered twice.\<close>
theorem register_sim_card_witness:
  "simCardValidation payload_sim001 =
     Inr \<lparr>w_sim_id = ''SIM001'', w_phone_number = ''+1234567890'', w_carrier = None,
          w_is_active = None\<rparr> \<and>
   unique_sim_ids empty_db \<and>
   post_sim_cards (env_at 1000) payload_sim001 empty_db =
     (\<lparr>status = 201,
       body = [(''status'', RStr ''ok''), (''sim_card'', RSimCard sim_card_sim001)]\<rparr>,
      \<lparr>messages = [], sim_cards = [sim_card_sim001], next_oid = 1\<rparr>) \<and>
   post_sim_cards (env_at 2000) payload_sim001
       \<lparr>messages = [], sim_cards = [sim_card_sim001], next_oid = 1\<rparr> =
     (\<lparr>status = 409, body = [(''error'', RStr ''SIM card already registered'')]\<rparr>,
      \<lparr>messages = [], sim_cards = [sim_card_sim001], next_oid = 1\<rparr>) \<and>
   length (filter (\<lambda>c. sc_sim_id c = ''SIM001'')
     (sim_cards \<lparr>messages = [], sim_cards = [sim_card_sim001], next_oid = 1\<rparr>)) = 1"
  using register_sim_card [of payload_sim001
      "\<lparr>w_sim_id = ''SIM001'', w_phone_number = ''+1234567890'', w_carrier = None,
        w_is_active = None\<rparr>" empty_db "env_at 1000" payload_sim001
      "\<lparr>w_sim_id = ''SIM001'', w_phone_number = ''+1234567890'', w_carrier = None,
        w_is_active = None\<rparr>" millis_toDate hex_castObjectId plain_lib "[]" "env_at 2000"
      GetSimCards]
  by (simp add: payload_sim001_def sim_card_sim001_def env_at_def empty_db_def unique_sim_ids_def
      post_sim_cards_def joi_defs SimCard_findOne_def save_sim_card_def new_SimCard_def
      simCardSchema_valid_def)

subsection \<open>POST /api/simakohost/send-sms and GET /health\<close>

text \<open>
  Claim C6, as the code has it. POST /api/simakohost/send-sms never changes the
  database. When one of \<open>sim_id\<close>, \<open>to\<close>, \<open>message\<close> is missing the answer is 400, and so it
  is when one of them is present but falsy (the empty string, 0, false, null). When
  all three are present and truthy the answer is 202 with a record of the three
  values, the status queued and \<open>created_at\<close> the time of the request.
\<close>
theorem send_sms_contract:
  "snd (send_sms e b s) = s \<and>
   (map_of b ''sim_id'' = None \<or> map_of b ''to'' = None \<or> map_of b ''message'' = None \<longrightarrow>
      send_sms e b s =
        (\<lparr>status = 400,
          body = [(''error'', RStr ''Missing required fields: sim_id, to, message'')]\<rparr>, s)) \<and>
   (\<forall>x y z. map_of b ''sim_id'' = Some x \<and> map_of b ''to'' = Some y \<and>
           map_of b ''message'' = Some z \<longrightarrow>
      (truthy x \<and> truthy y \<and> truthy z \<longrightarrow>
         send_sms e b s =
           (\<lparr>status = 202,
             body = [(''status'', RStr ''ok''),
                     (''message'', RStr ''SMS queued for sending''),
                     (''request'',
                      RObj [(''sim_id'', RJson x), (''to'', RJson y), (''message'', RJson z),
                            (''status'', RStr ''queued''),
                            (''created_at'', RDate (now e))])]\<rparr>, s)) \<and>
      (\<not> (truthy x \<and> truthy y \<and> truthy z) \<longrightarrow>
         send_sms e b s =
           (\<lparr>status = 400,
             body = [(''error'', RStr ''Missing required fields: sim_id, to, message'')]\<rparr>, s)))"
  by (auto simp: send_sms_def missing_fields_def split: option.splits)

text \<open>The theorem at a complete request and at a request without \<open>message\<close>.\<close>
theorem send_sms_contract_witness:
  "send_sms (env_at 1000) payload_sms empty_db =
     (\<lparr>status = 202,
       body = [(''status'', RStr ''ok''),
               (''message'', RStr ''SMS queued for sending''),
               (''request'',
                RObj [(''sim_id'', RJson (JStr ''SIM001'')), (''to'', RJson (JStr ''+1987'')),
                      (''message'', RJson (JStr ''hi'')),
                      (''status'', RStr ''queued''),
                      (''created_at'', RDate 1000)])]\<rparr>, empty_db) \<and>
   map_of (butlast payload_sms) ''message'' = None \<and>
   send_sms (env_at 1000) (butlast payload_sms) empty_db =
     (\<lparr>status = 400,
       body = [(''error'', RStr ''Missing required fields: sim_id, to, message'')]\<rparr>, empty_db) \<and>
   map_of payload_sms_empty_sim_id ''sim_id'' = Some (JStr []) \<and> \<not> truthy (JStr []) \<and>
   status (fst (send_sms (env_at 1000) payload_sms_empty_sim_id empty_db)) = 400"
  using send_sms_contract [of "env_at 1000" payload_sms empty_db]
    send_sms_contract [of "env_at 1000" "butlast payload_sms" empty_db]
    send_sms_contract [of "env_at 1000" payload_sms_empty_sim_id empty_db]
  by (simp add: payload_sms_def payload_sms_empty_sim_id_def env_at_def)

text \<open>
  Claim C6 as it is stated fails: a request in which all three fields are present is
  answered with 400 when \<open>sim_id\<close> is the empty string.
\<close>
theorem send_sms_present_fields_counterexample:
  "map_of payload_sms_empty_sim_id ''sim_id'' = Some (JStr []) \<and>
   map_of payload_sms_empty_sim_id ''to'' = Some (JStr ''+1987'') \<and>
   map_of payload_sms_empty_sim_id ''message'' = Some (JStr ''hi'') \<and>
   send_sms (env_at 1000) payload_sms_empty_sim_id empty_db =
     (\<lparr>status = 400,
       body = [(''error'', RStr ''Missing required fields: sim_id, to, message'')]\<rparr>, empty_db)"
  by (simp add: payload_sms_empty_sim_id_def send_sms_def missing_fields_def)

text \<open>
  Claim C8, as the code has it. GET /health is always answered with 200 and a body of
  \<open>status\<close>, the service name under \<open>service\<close>, the connectivity of the store under the key
  \<open>mongodb\<close> (connected when the ready state of the connection is 1, disconnected
  otherwise) and \<open>timestamp\<close>; the database is left as it was.
\<close>
theorem health_contract:
  "snd (health e s) = s \<and>
   status (fst (health e s)) = 200 \<and>
   map fst (body (fst (health e s))) = [''status'', ''service'', ''mongodb'', ''timestamp''] \<and>
   map_of (body (fst (health e s))) ''status'' = Some (RStr ''ok'') \<and>
   map_of (body (fst (health e s))) ''service'' = Some (RStr ''Simako Node.js Backend'') \<and>
   (readyState e = 1 \<longrightarrow>
      map_of (body (fst (health e s))) ''mongodb'' = Some (RStr ''connected'')) \<and>
   (readyState e \<noteq> 1 \<longrightarrow>
      map_of (body (fst (health e s))) ''mongodb'' = Some (RStr ''disconnected'')) \<and>
   map_of (body (fst (health e s))) ''timestamp'' = Some (RIsoString (now e))"
  by (simp add: health_def)

text \<open>The theorem at a connected and at a disconnected store.\<close>
theorem health_contract_witness:
  "readyState (env_at 1000) = 1 \<and>
   map_of (body (fst (health (env_at 1000) empty_db))) ''mongodb'' = Some (RStr ''connected'') \<and>
   readyState \<lparr>now = 1000, readyState = 0\<rparr> \<noteq> 1 \<and>
   map_of (body (fst (health \<lparr>now = 1000, readyState = 0\<rparr> empty_db))) ''mongodb'' =
     Some (RStr ''disconnected'') \<and>
   status (fst (health \<lparr>now = 1000, readyState = 0\<rparr> empty_db)) = 200"
  using health_contract [of "env_at 1000" empty_db]
    health_contract [of "\<lparr>now = 1000, readyState = 0\<rparr>" empty_db]
  by (simp add: env_at_def)

text \<open>
  Claim C8 as it is stated fails: the body of the health answer has no key \<open>store\<close>.
\<close>
theorem health_store_key_counterexample:
  "map_of (body (fst (health (env_at 1000) empty_db))) ''store'' = None \<and>
   map_of (body (fst (health \<lparr>now = 1000, readyState = 0\<rparr> empty_db))) ''store'' = None"
  by (simp add: health_def)

subsection \<open>Server-managed fields\<close>

text \<open>
  Claim C9. A payload of POST /api/messages or POST /api/sim-cards with a property
  that the validation schema does not declare is answered with 400 and nothing is
  written. So whatever the payload, a record that a request stores has its
  identifier from the store, \<open>created_at\<close> (and \<open>last_seen\<close>) at the time of the request,
  and for a message \<open>processed\<close> false and \<open>processed_at\<close> not set.
\<close>
theorem undeclared_fields_rejected:
  "(k \<in> set (map fst b) \<and> k \<notin> set message_keys \<longrightarrow>
      (\<exists>err. post_messages toDate e b s =
                (\<lparr>status = 400, body = [(''error'', RJoi err)]\<rparr>, s))) \<and>
   (k \<in> set (map fst b) \<and> k \<notin> set sim_card_keys \<longrightarrow>
      (\<exists>err. post_sim_cards e b s =
                (\<lparr>status = 400, body = [(''error'', RJoi err)]\<rparr>, s))) \<and>
   (\<exists>new. messages (snd (post_messages toDate e b s)) = messages s @ new \<and> length new \<le> 1 \<and>
      list_all (\<lambda>m. m_id m = next_oid s \<and> m_processed m = False \<and> m_processed_at m = None \<and>
                     m_created_at m = now e) new) \<and>
   (\<exists>new. sim_cards (snd (post_sim_cards e b s)) = sim_cards s @ new \<and> length new \<le> 1 \<and>
      list_all (\<lambda>c. sc_id c = next_oid s \<and> sc_created_at c = now e \<and>
                     sc_last_seen c = now e) new) \<and>
   list_all (\<lambda>k. k \<notin> set message_keys)
     [''processed'', ''processed_at'', ''created_at'', ''id'', ''_id'']"
proof (intro conjI impI)
  assume k: "k \<in> set (map fst b) \<and> k \<notin> set message_keys"
  have "\<nexists>v. messageValidation toDate b = Inr v"
    unfolding messageValidation_Inr using k by blast
  then obtain err where "messageValidation toDate b = Inl err"
    by (cases "messageValidation toDate b") auto
  then show "\<exists>err. post_messages toDate e b s =
                (\<lparr>status = 400, body = [(''error'', RJoi err)]\<rparr>, s)"
    using post_messages_rejected by blast
next
  assume k: "k \<in> set (map fst b) \<and> k \<notin> set sim_card_keys"
  have "\<nexists>v. simCardValidation b = Inr v"
    unfolding simCardValidation_Inr using k by blast
  then obtain err where "simCardValidation b = Inl err"
    by (cases "simCardValidation b") auto
  then show "\<exists>err. post_sim_cards e b s =
                (\<lparr>status = 400, body = [(''error'', RJoi err)]\<rparr>, s)"
    using post_sim_cards_rejected by blast
next
  show "\<exists>new. messages (snd (post_messages toDate e b s)) = messages s @ new \<and>
      length new \<le> 1 \<and>
      list_all (\<lambda>m. m_id m = next_oid s \<and> m_processed m = False \<and> m_processed_at m = None \<and>
                     m_created_at m = now e) new"
    by (rule post_messages_appends)
next
  obtain new where new: "sim_cards (snd (post_sim_cards e b s)) = sim_cards s @ new"
    "length new \<le> 1"
    "list_all (\<lambda>c. sc_id c = next_oid s \<and> sc_created_at c = now e \<and> sc_last_seen c = now e \<and>
                    (\<forall>c' \<in> set (sim_cards s). sc_sim_id c' \<noteq> sc_sim_id c)) new"
    using post_sim_cards_appends [of e b s] by blast
  from new(3) have "list_all (\<lambda>c. sc_id c = next_oid s \<and> sc_created_at c = now e \<and>
                     sc_last_seen c = now e) new"
    by (simp add: list_all_iff)
  with new(1,2)
  show "\<exists>new. sim_cards (snd (post_sim_cards e b s)) = sim_cards s @ new \<and> length new \<le> 1 \<and>
      list_all (\<lambda>c. sc_id c = next_oid s \<and> sc_created_at c = now e \<and>
                     sc_last_seen c = now e) new"
    by blast
next
  show "list_all (\<lambda>k. k \<notin> set message_keys)
     [''processed'', ''processed_at'', ''created_at'', ''id'', ''_id'']"
    by (simp add: message_keys_def)
qed

text \<open>
  The theorem at the message payload that carries \<open>processed\<close> and at a SIM card
  payload that carries \<open>created_at\<close>.
\<close>
theorem undeclared_fields_rejected_witness:
  "''processed'' \<in> set (map fst payload_with_processed) \<and> ''processed'' \<notin> set message_keys \<and>
   post_messages millis_toDate (env_at 1000) payload_with_processed empty_db =
     (\<lparr>status = 400, body = [(''error'', RJoi (ObjectUnknown ''processed''))]\<rparr>, empty_db) \<and>
   ''created_at'' \<in> set (map fst (payload_sim001 @ [(''created_at'', JNum 5)])) \<and>
   ''created_at'' \<notin> set sim_card_keys \<and>
   post_sim_cards (env_at 1000) (payload_sim001 @ [(''created_at'', JNum 5)]) empty_db =
     (\<lparr>status = 400, body = [(''error'', RJoi (ObjectUnknown ''created_at''))]\<rparr>, empty_db)"
  using undeclared_fields_rejected [of "''processed''" payload_with_processed millis_toDate
      "env_at 1000" empty_db]
    undeclared_fields_rejected [of "''created_at''"
      "payload_sim001 @ [(''created_at'', JNum 5)]" millis_toDate "env_at 1000" empty_db]
  by (simp add: payload_with_processed_def payload_sim001_def env_at_def empty_db_def
      post_messages_def post_sim_cards_def joi_defs)

end
